theory Spec2Isabelle
  imports Main "HOL-Library.Word"
begin

unbundle bit_operations_syntax

section \<open>The Gameslab LCD frame buffer driver (drivers/video/fbdev/gslcdfb.c)\<close>

text \<open>
  The driver runs on a 32-bit SoC: \<open>unsigned\<close>, \<open>u32\<close>, \<open>size_t\<close>, \<open>phys_addr_t\<close>,
  \<open>dma_addr_t\<close> and pointers are 32-bit values, modelled as \<open>32 word\<close> (arithmetic
  wraps, shifts drop the bits that leave the word). The C \<open>int\<close> results (0 or a
  negative errno) are modelled as \<open>int\<close>.
\<close>

type_synonym u32 = "32 word"

subsection \<open>Constants of the driver\<close>

definition REG_OFF_EN :: u32 where
  "REG_OFF_EN = 0"

definition REG_OFF_FB_PTR :: u32 where
  "REG_OFF_FB_PTR = 1"

definition BYTES_PER_PIXEL :: u32 where
  "BYTES_PER_PIXEL = 3"

definition BITS_PER_PIXEL :: u32 where
  "BITS_PER_PIXEL = BYTES_PER_PIXEL * 8"

definition RED_SHIFT :: nat where
  "RED_SHIFT = 16"

definition GREEN_SHIFT :: nat where
  "GREEN_SHIFT = 8"

definition BLUE_SHIFT :: nat where
  "BLUE_SHIFT = 0"

definition PALETTE_ENTRIES_NO :: u32 where
  "PALETTE_ENTRIES_NO = 16"

subsection \<open>Constants of the kernel headers\<close>

text \<open>
  Modelled from the spec: the error kinds \<open>IndexOutOfRange\<close> and \<open>OutOfMemory\<close> of
  section 7 are the kernel's \<open>EINVAL\<close> and \<open>ENOMEM\<close>; the header that numbers them
  (errno-base.h) is not among the sources, the numbers are the kernel's.
\<close>

definition ENOMEM :: int where
  "ENOMEM = 12"

definition EINVAL :: int where
  "EINVAL = 22"

text \<open>
  Modelled from the spec: the blank modes of section 4.4 (unblank, and the four blank
  modes Normal, VSyncSuspend, HSyncSuspend, PowerDown). The header that numbers them
  (fb.h) is not among the sources; the numbering is the kernel's, where
  \<open>FB_BLANK_x = VESA_x + 1\<close> for the three suspend modes.
\<close>

definition FB_BLANK_UNBLANK :: int where
  "FB_BLANK_UNBLANK = 0"

definition FB_BLANK_NORMAL :: int where
  "FB_BLANK_NORMAL = 1"

definition FB_BLANK_VSYNC_SUSPEND :: int where
  "FB_BLANK_VSYNC_SUSPEND = 2"

definition FB_BLANK_HSYNC_SUSPEND :: int where
  "FB_BLANK_HSYNC_SUSPEND = 3"

definition FB_BLANK_POWERDOWN :: int where
  "FB_BLANK_POWERDOWN = 4"

definition VESA_POWERDOWN :: int where
  "VESA_POWERDOWN = 3"

text \<open>
  Modelled from the spec: a failed register mapping is an error-encoding pointer
  (section 4.5, step 1). The macros \<open>IS_ERR\<close> and \<open>PTR_ERR\<close> (err.h) are not among the
  sources: a pointer among the last \<open>MAX_ERRNO\<close> addresses encodes the negative errno
  that is its two's complement reading.
\<close>

definition MAX_ERRNO :: u32 where
  "MAX_ERRNO = 4095"

definition IS_ERR :: "u32 \<Rightarrow> bool" where
  "IS_ERR p = (p \<ge> - MAX_ERRNO)"

definition PTR_ERR :: "u32 \<Rightarrow> int" where
  "PTR_ERR p = sint p"

subsection \<open>Data\<close>

text \<open>\<open>struct gslcdfb_platform_data\<close>: the display configuration.\<close>

record gslcdfb_platform_data =
  screen_height_mm :: u32
  screen_width_mm :: u32
  xres :: u32
  yres :: u32
  xvirt :: u32
  yvirt :: u32
  fb_phys :: u32

text \<open>\<open>gslcd_fb_default_pdata\<close>; a field the initialiser leaves out is zero.\<close>

definition gslcd_fb_default_pdata :: gslcdfb_platform_data where
  "gslcd_fb_default_pdata =
     \<lparr> screen_height_mm = 65, screen_width_mm = 108,
       xres = 800, yres = 480, xvirt = 800, yvirt = 480, fb_phys = 0 \<rparr>"

text \<open>
  The fields of \<open>struct fb_info\<close> that the driver computes. The descriptive fields it
  copies from constant tables (id, type, visual, accel, activate, flags, the colour
  bit fields, fbops, device) are left out: no operation of the driver reads them.
  Fields of \<open>var\<close> whose names the configuration also uses carry the prefix \<open>var_\<close>.
\<close>

record fb_fix_screeninfo =
  smem_start :: u32
  smem_len :: u32
  line_length :: u32

record fb_var_screeninfo =
  var_xres :: u32
  var_yres :: u32
  xres_virtual :: u32
  yres_virtual :: u32
  bits_per_pixel :: u32
  grayscale :: u32
  var_height :: u32
  var_width :: u32

record fb_info =
  fb_var :: fb_var_screeninfo
  fb_fix :: fb_fix_screeninfo
  screen_base :: u32

text \<open>
  \<open>struct gslcdfb_drvdata\<close>. The frame buffer's physical address is \<open>drv_fb_phys\<close>
  (the configuration has a field \<open>fb_phys\<close> too). \<open>info.pseudo_palette\<close> is a pointer
  that \<open>gslcdfb_assign\<close> sets to the array \<open>pseudo_palette\<close> of the same structure, so
  the palette that the frame buffer layer hands to \<open>gslcd_fb_setcolreg\<close> is this
  array of \<open>PALETTE_ENTRIES_NO\<close> words.
\<close>

record gslcdfb_drvdata =
  info :: fb_info
  regs_phys :: u32
  regs :: u32
  fb_virt :: u32
  drv_fb_phys :: u32
  fb_alloced :: int
  pseudo_palette :: "u32 list"

subsection \<open>Colour registers\<close>

text \<open>
  \<open>gslcd_fb_setcolreg\<close>: the result is the return value and the driver data with the
  palette entry written. All of \<open>regno\<close>, \<open>red\<close>, \<open>green\<close>, \<open>blue\<close>, \<open>transp\<close> (here \<open>transpv\<close>) are
  \<open>unsigned\<close>.
\<close>

definition gslcd_fb_setcolreg ::
  "u32 \<Rightarrow> u32 \<Rightarrow> u32 \<Rightarrow> u32 \<Rightarrow> u32 \<Rightarrow> gslcdfb_drvdata \<Rightarrow> int \<times> gslcdfb_drvdata" where
  "gslcd_fb_setcolreg regno red green blue transpv fbi =
     (if regno \<ge> PALETTE_ENTRIES_NO then (- EINVAL, fbi)
      else
        let gray = drop_bit 8 (red * 77 + green * 151 + blue * 28 + 127);
            red1 = (if grayscale (fb_var (info fbi)) \<noteq> 0 then gray else red);
            green1 = (if grayscale (fb_var (info fbi)) \<noteq> 0 then gray else green);
            blue1 = (if grayscale (fb_var (info fbi)) \<noteq> 0 then gray else blue);
            red2 = drop_bit 8 red1;
            green2 = drop_bit 8 green1;
            blue2 = drop_bit 8 blue1
        in (0, fbi\<lparr>pseudo_palette := (pseudo_palette fbi)
                  [unat regno := push_bit RED_SHIFT red2 OR push_bit GREEN_SHIFT green2
                                 OR push_bit BLUE_SHIFT blue2]\<rparr>))"

subsection \<open>The kernel around the driver\<close>

text \<open>
  Modelled from the spec: the external collaborators of sections 1 and 6, whose code
  is not among the sources. The driver calls into the kernel: resource mapping, the
  DMA allocator, the frame buffer layer. What those calls return is not decided by the driver, so it is a
  parameter: a \<open>kernel\<close> gives the result of every call that has one, the page size
  behind \<open>PAGE_ALIGN\<close>, and the two configuration switches that \<open>gslcdfb_release\<close>
  tests. A null pointer is the word 0.
\<close>

record kernel =
  PAGE_SIZE :: u32
  CONFIG_FRAMEBUFFER_CONSOLE :: bool
  CONFIG_LOGO :: bool
  devm_kzalloc_ok :: bool
  devm_ioremap_resource :: u32
  res_start :: u32
  ioremap :: "u32 \<Rightarrow> u32 \<Rightarrow> u32"
  dma_alloc_coherent :: "u32 \<Rightarrow> u32 \<times> u32"
  fb_alloc_cmap :: "u32 \<Rightarrow> u32 \<Rightarrow> int"
  register_framebuffer :: int

text \<open>
  Modelled from the spec: the allocation is "rounded up to the platform page size"
  (section 4.3). The macro (mm.h) is not among the sources:
  \<open>PAGE_ALIGN(x)\<close> is \<open>(x + (PAGE_SIZE - 1)) & ~(PAGE_SIZE - 1)\<close>, computed in the type of
  \<open>x\<close> (32 bits for both \<open>fbsize\<close> and \<open>smem_len\<close>).
\<close>

definition PAGE_ALIGN :: "kernel \<Rightarrow> u32 \<Rightarrow> u32" where
  "PAGE_ALIGN k x = (x + (PAGE_SIZE k - 1)) AND NOT (PAGE_SIZE k - 1)"

text \<open>
  Every call that leaves the driver is recorded, in order, with its arguments and
  its result: \<open>Ioremap phys size virt\<close>, \<open>DmaAllocCoherent size virt handle\<close>,
  \<open>MemsetIo dst value count\<close>, \<open>Iowrite32 value address\<close>,
  \<open>FbAllocCmap len transp rc\<close>, \<open>DmaFreeCoherent size virt handle\<close>. The log calls
  (\<open>dev_err\<close>, \<open>dev_dbg\<close>) are not recorded.
\<close>

datatype event =
    DevmKzalloc bool
  | DevmIoremapResource u32
  | Ioremap u32 u32 u32
  | DmaAllocCoherent u32 u32 u32
  | MemsetIo u32 "8 word" u32
  | Iowrite32 u32 u32
  | FbAllocCmap u32 u32 int
  | RegisterFramebuffer int
  | FbDeallocCmap
  | DmaFreeCoherent u32 u32 u32
  | Iounmap u32
  | UnregisterFramebuffer

text \<open>
  The world outside the driver data: the calls made so far, the contents of the
  memory-mapped registers by address, and the bytes of memory by address.
\<close>

record world =
  trace :: "event list"
  io :: "u32 \<Rightarrow> u32"
  mem :: "u32 \<Rightarrow> 8 word"

definition emit :: "event \<Rightarrow> world \<Rightarrow> world" where
  "emit e w = w\<lparr>trace := trace w @ [e]\<rparr>"

definition iowrite32 :: "u32 \<Rightarrow> u32 \<Rightarrow> world \<Rightarrow> world" where
  "iowrite32 val a w = emit (Iowrite32 val a) (w\<lparr>io := (io w)(a := val)\<rparr>)"

definition ioread32 :: "u32 \<Rightarrow> world \<Rightarrow> u32" where
  "ioread32 a w = io w a"

text \<open>
  \<open>memset_io dst c count\<close> stores \<open>c\<close> in the \<open>count\<close> bytes \<open>dst\<close>, \<open>dst + 1\<close>, ...,
  \<open>dst + (count - 1)\<close>: the addresses \<open>a\<close> whose distance \<open>a - dst\<close> is below \<open>count\<close>.
\<close>

definition memset_io :: "u32 \<Rightarrow> 8 word \<Rightarrow> u32 \<Rightarrow> world \<Rightarrow> world" where
  "memset_io dst c count w =
     emit (MemsetIo dst c count)
       (w\<lparr>mem := (\<lambda>a. if a - dst < count then c else mem w a)\<rparr>)"

definition dma_free_coherent :: "u32 \<Rightarrow> u32 \<Rightarrow> u32 \<Rightarrow> world \<Rightarrow> world" where
  "dma_free_coherent size' vaddr handle w = emit (DmaFreeCoherent size' vaddr handle) w"

definition iounmap :: "u32 \<Rightarrow> world \<Rightarrow> world" where
  "iounmap vaddr w = emit (Iounmap vaddr) w"

definition fb_dealloc_cmap :: "world \<Rightarrow> world" where
  "fb_dealloc_cmap w = emit FbDeallocCmap w"

definition unregister_framebuffer :: "world \<Rightarrow> world" where
  "unregister_framebuffer w = emit UnregisterFramebuffer w"

subsection \<open>Register access\<close>

definition gslcd_fb_out32 :: "gslcdfb_drvdata \<Rightarrow> u32 \<Rightarrow> u32 \<Rightarrow> world \<Rightarrow> world" where
  "gslcd_fb_out32 drvdata offset val w = iowrite32 val (regs drvdata + push_bit 2 offset) w"

definition gslcd_fb_in32 :: "gslcdfb_drvdata \<Rightarrow> u32 \<Rightarrow> world \<Rightarrow> u32" where
  "gslcd_fb_in32 drvdata offset w = ioread32 (regs drvdata + push_bit 2 offset) w"

subsection \<open>Blanking\<close>

text \<open>
  \<open>gslcd_fb_blank\<close>: the four blank cases share one body, which runs into \<open>default\<close>;
  any other mode reaches \<open>default\<close> directly. The result is the return value and the
  world.
\<close>

definition gslcd_fb_blank :: "int \<Rightarrow> gslcdfb_drvdata \<Rightarrow> world \<Rightarrow> int \<times> world" where
  "gslcd_fb_blank blank_mode drvdata w =
     (if blank_mode = FB_BLANK_UNBLANK then (0, gslcd_fb_out32 drvdata REG_OFF_EN 1 w)
      else if blank_mode = FB_BLANK_NORMAL \<or> blank_mode = FB_BLANK_VSYNC_SUSPEND
              \<or> blank_mode = FB_BLANK_HSYNC_SUSPEND \<or> blank_mode = FB_BLANK_POWERDOWN
      then (0, gslcd_fb_out32 drvdata REG_OFF_EN 0 w)
      else (0, w))"

subsection \<open>Setup and teardown\<close>

text \<open>
  The tail of \<open>gslcdfb_assign\<close> from the label \<open>err_cmap\<close>, and from \<open>err_regfb\<close>, which
  runs into it.
\<close>

definition err_cmap ::
  "kernel \<Rightarrow> u32 \<Rightarrow> int \<Rightarrow> gslcdfb_drvdata \<Rightarrow> world \<Rightarrow> int \<times> gslcdfb_drvdata \<times> world" where
  "err_cmap k fbsize rc drvdata w =
     (let w1 = (if fb_alloced drvdata \<noteq> 0
                then dma_free_coherent (PAGE_ALIGN k fbsize) (fb_virt drvdata)
                       (drv_fb_phys drvdata) w
                else iounmap (fb_virt drvdata) w);
          w2 = gslcd_fb_out32 drvdata REG_OFF_EN 0 w1
      in (rc, drvdata, w2))"

definition err_regfb ::
  "kernel \<Rightarrow> u32 \<Rightarrow> int \<Rightarrow> gslcdfb_drvdata \<Rightarrow> world \<Rightarrow> int \<times> gslcdfb_drvdata \<times> world" where
  "err_regfb k fbsize rc drvdata w = err_cmap k fbsize rc drvdata (fb_dealloc_cmap w)"

text \<open>
  The block "Fill struct fb_info". \<open>info.var\<close> and \<open>info.fix\<close> are first overwritten
  with the constant tables \<open>gslcd_fb_var\<close> and \<open>gslcd_fb_fix\<close>, where \<open>grayscale\<close> is
  zero and \<open>bits_per_pixel\<close> is \<open>BITS_PER_PIXEL\<close>.
\<close>

definition fill_fb_info :: "gslcdfb_platform_data \<Rightarrow> u32 \<Rightarrow> gslcdfb_drvdata \<Rightarrow> gslcdfb_drvdata" where
  "fill_fb_info pdata fbsize drvdata =
     drvdata\<lparr>info :=
       \<lparr> fb_var = \<lparr> var_xres = xres pdata, var_yres = yres pdata,
                    xres_virtual = xvirt pdata, yres_virtual = yvirt pdata,
                    bits_per_pixel = BITS_PER_PIXEL, grayscale = 0,
                    var_height = screen_height_mm pdata,
                    var_width = screen_width_mm pdata \<rparr>,
         fb_fix = \<lparr> smem_start = drv_fb_phys drvdata, smem_len = fbsize,
                    line_length = xvirt pdata * BYTES_PER_PIXEL \<rparr>,
         screen_base = fb_virt drvdata \<rparr>\<rparr>"

text \<open>The block "Allocate the framebuffer memory".\<close>

definition alloc_fb ::
  "kernel \<Rightarrow> gslcdfb_platform_data \<Rightarrow> u32 \<Rightarrow> gslcdfb_drvdata \<Rightarrow> world \<Rightarrow> gslcdfb_drvdata \<times> world" where
  "alloc_fb k pdata fbsize drvdata w =
     (if fb_phys pdata \<noteq> 0
      then let v = ioremap k (fb_phys pdata) fbsize
           in (drvdata\<lparr>drv_fb_phys := fb_phys pdata, fb_virt := v\<rparr>,
               emit (Ioremap (fb_phys pdata) fbsize v) w)
      else let (v, handle) = dma_alloc_coherent k (PAGE_ALIGN k fbsize)
           in (drvdata\<lparr>fb_alloced := 1, fb_virt := v, drv_fb_phys := handle\<rparr>,
               emit (DmaAllocCoherent (PAGE_ALIGN k fbsize) v handle) w))"

text \<open>\<open>gslcdfb_assign\<close>: the return value, the driver data and the world.\<close>

definition gslcdfb_assign ::
  "kernel \<Rightarrow> gslcdfb_platform_data \<Rightarrow> gslcdfb_drvdata \<Rightarrow> world
     \<Rightarrow> int \<times> gslcdfb_drvdata \<times> world" where
  "gslcdfb_assign k pdata drvdata w =
     (let fbsize = xvirt pdata * yvirt pdata * BYTES_PER_PIXEL;
          d1 = drvdata\<lparr>regs := devm_ioremap_resource k\<rparr>;
          w1 = emit (DevmIoremapResource (devm_ioremap_resource k)) w
      in if IS_ERR (regs d1) then (PTR_ERR (regs d1), d1, w1)
         else
           let d2 = d1\<lparr>regs_phys := res_start k\<rparr>;
               (d3, w3) = alloc_fb k pdata fbsize d2 w1
           in if fb_virt d3 = 0 then (- ENOMEM, d3, w3)
              else
                let w4 = memset_io (fb_virt d3) 0 fbsize w3;
                    w5 = gslcd_fb_out32 d3 REG_OFF_FB_PTR (drv_fb_phys d3) w4;
                    w6 = gslcd_fb_out32 d3 REG_OFF_EN 1 w5;
                    d4 = fill_fb_info pdata fbsize d3;
                    rc = fb_alloc_cmap k PALETTE_ENTRIES_NO 0;
                    w7 = emit (FbAllocCmap PALETTE_ENTRIES_NO 0 rc) w6
                in if rc \<noteq> 0 then err_cmap k fbsize rc d4 w7
                   else
                     let rc2 = register_framebuffer k;
                         w8 = emit (RegisterFramebuffer rc2) w7
                     in if rc2 \<noteq> 0 then err_regfb k fbsize rc2 d4 w8
                        else (0, d4, w8))"

text \<open>
  \<open>gslcdfb_release\<close>: the return value and the world. The blanking call at its head
  is compiled in when \<open>CONFIG_FRAMEBUFFER_CONSOLE\<close> is off and \<open>CONFIG_LOGO\<close> is on.
\<close>

definition gslcdfb_release :: "kernel \<Rightarrow> gslcdfb_drvdata \<Rightarrow> world \<Rightarrow> int \<times> world" where
  "gslcdfb_release k drvdata w =
     (let w1 = (if \<not> CONFIG_FRAMEBUFFER_CONSOLE k \<and> CONFIG_LOGO k
                then snd (gslcd_fb_blank VESA_POWERDOWN drvdata w) else w);
          w2 = unregister_framebuffer w1;
          w3 = fb_dealloc_cmap w2;
          w4 = (if fb_alloced drvdata \<noteq> 0
                then dma_free_coherent (PAGE_ALIGN k (smem_len (fb_fix (info drvdata))))
                       (fb_virt drvdata) (drv_fb_phys drvdata) w3
                else iounmap (fb_virt drvdata) w3);
          w5 = gslcd_fb_out32 drvdata REG_OFF_EN 0 w4
      in (0, w5))"

text \<open>
  The driver data as \<open>devm_kzalloc\<close> returns it: every field zero. \<open>gslcdfb_of_probe\<close>
  passes it to \<open>gslcdfb_assign\<close> with a copy of the default configuration.
\<close>

definition kzalloc_drvdata :: gslcdfb_drvdata where
  "kzalloc_drvdata =
     \<lparr> info = \<lparr> fb_var = \<lparr> var_xres = 0, var_yres = 0, xres_virtual = 0,
                           yres_virtual = 0, bits_per_pixel = 0, grayscale = 0,
                           var_height = 0, var_width = 0 \<rparr>,
                fb_fix = \<lparr> smem_start = 0, smem_len = 0, line_length = 0 \<rparr>,
                screen_base = 0 \<rparr>,
       regs_phys = 0, regs = 0, fb_virt = 0, drv_fb_phys = 0, fb_alloced = 0,
       pseudo_palette = replicate (unat PALETTE_ENTRIES_NO) 0 \<rparr>"

definition gslcdfb_of_probe :: "kernel \<Rightarrow> world \<Rightarrow> int \<times> gslcdfb_drvdata option \<times> world" where
  "gslcdfb_of_probe k w =
     (let pdata = gslcd_fb_default_pdata;
          w1 = emit (DevmKzalloc (devm_kzalloc_ok k)) w
      in if \<not> devm_kzalloc_ok k then (- ENOMEM, None, w1)
         else case gslcdfb_assign k pdata kzalloc_drvdata w1 of
                (rc, drvdata, w2) \<Rightarrow> (rc, Some drvdata, w2))"

definition gslcdfb_of_remove :: "kernel \<Rightarrow> gslcdfb_drvdata \<Rightarrow> world \<Rightarrow> int \<times> world" where
  "gslcdfb_of_remove k drvdata w = gslcdfb_release k drvdata w"

subsection \<open>The vocabulary of the specification\<close>

text \<open>
  The ownership tag of the frame buffer region is the flag \<open>fb_alloced\<close>; the display
  state is the enable bit, bit 0 of the register at offset \<open>REG_OFF_EN\<close>.
\<close>

datatype ownership = Allocated | ExternallyProvided

definition ownership_tag :: "gslcdfb_drvdata \<Rightarrow> ownership" where
  "ownership_tag drvdata = (if fb_alloced drvdata \<noteq> 0 then Allocated else ExternallyProvided)"

datatype display_state = Enabled | Disabled

definition display_state_of :: "gslcdfb_drvdata \<Rightarrow> world \<Rightarrow> display_state" where
  "display_state_of drvdata w =
     (if bit (gslcd_fb_in32 drvdata REG_OFF_EN w) 0 then Enabled else Disabled)"

text \<open>
  Resources that the driver itself must give back, and the bookkeeping of a trace:
  a call that succeeds acquires one, the matching call, with the same arguments,
  releases it. The register mapping is device-managed (\<open>devm_\<close>): the driver never
  releases it, and it is not counted.
\<close>

datatype resource =
    Coherent u32 u32 u32
  | Mapping u32
  | Colormap
  | Registration

fun acquires :: "event \<Rightarrow> resource option" where
  "acquires (Ioremap phys sz v) = (if v \<noteq> 0 then Some (Mapping v) else None)"
| "acquires (DmaAllocCoherent sz v handle) =
     (if v \<noteq> 0 then Some (Coherent sz v handle) else None)"
| "acquires (FbAllocCmap l t rc) = (if rc = 0 then Some Colormap else None)"
| "acquires (RegisterFramebuffer rc) = (if rc = 0 then Some Registration else None)"
| "acquires _ = None"

fun releases :: "event \<Rightarrow> resource option" where
  "releases (Iounmap v) = Some (Mapping v)"
| "releases (DmaFreeCoherent sz v handle) = Some (Coherent sz v handle)"
| "releases FbDeallocCmap = Some Colormap"
| "releases UnregisterFramebuffer = Some Registration"
| "releases _ = None"

definition account :: "resource list \<Rightarrow> event \<Rightarrow> resource list" where
  "account rs e =
     (case acquires e of
        Some r \<Rightarrow> r # rs
      | None \<Rightarrow> (case releases e of Some r \<Rightarrow> remove1 r rs | None \<Rightarrow> rs))"

definition outstanding :: "resource list \<Rightarrow> event list \<Rightarrow> resource list" where
  "outstanding rs evs = foldl account rs evs"

definition acquired :: "event list \<Rightarrow> resource list" where
  "acquired evs = List.map_filter acquires evs"

definition released :: "event list \<Rightarrow> resource list" where
  "released evs = List.map_filter releases evs"

text \<open>
  The colour fields of a packed pixel, as \<open>gslcd_fb_var\<close> declares them: eight bits
  each, red at \<open>RED_SHIFT\<close>, green at \<open>GREEN_SHIFT\<close>, blue at \<open>BLUE_SHIFT\<close>.
\<close>

definition field :: "nat \<Rightarrow> u32 \<Rightarrow> u32" where
  "field shift v = take_bit 8 (drop_bit shift v)"

subsection \<open>Concrete inputs\<close>

text \<open>Driver data with the grayscale flag of \<open>info.var\<close> set.\<close>

definition gray_drvdata :: gslcdfb_drvdata where
  "gray_drvdata =
     kzalloc_drvdata\<lparr>info := (info kzalloc_drvdata)
       \<lparr>fb_var := (fb_var (info kzalloc_drvdata))\<lparr>grayscale := 1\<rparr>\<rparr>\<rparr>"

subsection \<open>Observing a run\<close>

text \<open>The calls made between the world \<open>w\<close> and a later world \<open>w'\<close>.\<close>

definition calls :: "world \<Rightarrow> world \<Rightarrow> event list" where
  "calls w w' = drop (length (trace w)) (trace w')"

text \<open>The three results of \<open>gslcdfb_assign\<close>, and the worlds that the other operations leave.\<close>

definition assign_rc :: "kernel \<Rightarrow> gslcdfb_platform_data \<Rightarrow> gslcdfb_drvdata \<Rightarrow> world \<Rightarrow> int" where
  "assign_rc k pdata drvdata w = fst (gslcdfb_assign k pdata drvdata w)"

definition assign_drvdata ::
  "kernel \<Rightarrow> gslcdfb_platform_data \<Rightarrow> gslcdfb_drvdata \<Rightarrow> world \<Rightarrow> gslcdfb_drvdata" where
  "assign_drvdata k pdata drvdata w = fst (snd (gslcdfb_assign k pdata drvdata w))"

definition assign_world ::
  "kernel \<Rightarrow> gslcdfb_platform_data \<Rightarrow> gslcdfb_drvdata \<Rightarrow> world \<Rightarrow> world" where
  "assign_world k pdata drvdata w = snd (snd (gslcdfb_assign k pdata drvdata w))"

definition release_world :: "kernel \<Rightarrow> gslcdfb_drvdata \<Rightarrow> world \<Rightarrow> world" where
  "release_world k drvdata w = snd (gslcdfb_release k drvdata w)"

definition blank_world :: "int \<Rightarrow> gslcdfb_drvdata \<Rightarrow> world \<Rightarrow> world" where
  "blank_world blank_mode drvdata w = snd (gslcd_fb_blank blank_mode drvdata w)"

text \<open>
  The calls that obtain frame buffer memory (map a fixed address, allocate coherent
  memory) and those that give it back (unmap, free).
\<close>

fun is_fb_acquire :: "event \<Rightarrow> bool" where
  "is_fb_acquire (Ioremap phys sz v) = True"
| "is_fb_acquire (DmaAllocCoherent sz v handle) = True"
| "is_fb_acquire _ = False"

fun is_fb_release :: "event \<Rightarrow> bool" where
  "is_fb_release (Iounmap v) = True"
| "is_fb_release (DmaFreeCoherent sz v handle) = True"
| "is_fb_release _ = False"

text \<open>
  A kernel with 4 KiB pages in which every call succeeds, a configuration with a
  fixed frame buffer address, and a world in which nothing has been called yet.
\<close>

definition good_kernel :: kernel where
  "good_kernel =
     \<lparr> PAGE_SIZE = 4096, CONFIG_FRAMEBUFFER_CONSOLE = True, CONFIG_LOGO = True,
       devm_kzalloc_ok = True, devm_ioremap_resource = 0xF0000000, res_start = 0x43C00000,
       ioremap = (\<lambda>phys sz. 0xE0000000),
       dma_alloc_coherent = (\<lambda>sz. (0xC1000000, 0x01000000)),
       fb_alloc_cmap = (\<lambda>len t. 0), register_framebuffer = 0 \<rparr>"

definition fixed_pdata :: gslcdfb_platform_data where
  "fixed_pdata = gslcd_fb_default_pdata\<lparr>fb_phys := 0x10000000\<rparr>"

definition w0 :: world where
  "w0 = \<lparr> trace = [], io = (\<lambda>a. 0), mem = (\<lambda>a. 0xFF) \<rparr>"

text \<open>
  The kernel gives \<open>gslcdfb_assign\<close> frame buffer memory for this configuration (a
  non-null pointer on the path the configuration selects); every call of
  \<open>gslcdfb_assign\<close> succeeds; the resource that holds the frame buffer.
\<close>

definition fb_memory_ok :: "kernel \<Rightarrow> gslcdfb_platform_data \<Rightarrow> bool" where
  "fb_memory_ok k pdata =
     (let fbsize = xvirt pdata * yvirt pdata * BYTES_PER_PIXEL
      in if fb_phys pdata \<noteq> 0 then ioremap k (fb_phys pdata) fbsize \<noteq> 0
         else fst (dma_alloc_coherent k (PAGE_ALIGN k fbsize)) \<noteq> 0)"

definition all_calls_succeed :: "kernel \<Rightarrow> gslcdfb_platform_data \<Rightarrow> bool" where
  "all_calls_succeed k pdata =
     (\<not> IS_ERR (devm_ioremap_resource k) \<and> fb_memory_ok k pdata
      \<and> fb_alloc_cmap k PALETTE_ENTRIES_NO 0 = 0 \<and> register_framebuffer k = 0)"

definition fb_resource :: "kernel \<Rightarrow> gslcdfb_platform_data \<Rightarrow> gslcdfb_drvdata \<Rightarrow> resource" where
  "fb_resource k pdata d =
     (if fb_phys pdata \<noteq> 0 then Mapping (fb_virt d)
      else Coherent (PAGE_ALIGN k (xvirt pdata * yvirt pdata * BYTES_PER_PIXEL))
             (fb_virt d) (drv_fb_phys d))"

text \<open>Kernels in which one call fails, and one where \<open>gslcdfb_release\<close> blanks first.\<close>

definition map_fails_kernel :: kernel where
  "map_fails_kernel = good_kernel\<lparr>ioremap := (\<lambda>phys sz. 0)\<rparr>"

definition alloc_fails_kernel :: kernel where
  "alloc_fails_kernel = good_kernel\<lparr>dma_alloc_coherent := (\<lambda>sz. (0, 0))\<rparr>"

definition register_fails_kernel :: kernel where
  "register_fails_kernel = good_kernel\<lparr>register_framebuffer := - 22\<rparr>"

definition logo_kernel :: kernel where
  "logo_kernel = good_kernel\<lparr>CONFIG_FRAMEBUFFER_CONSOLE := False\<rparr>"

section \<open>Properties\<close>

subsection \<open>Concrete inputs\<close>

lemma good_kernel_simps:
  "PAGE_SIZE good_kernel = 4096" "CONFIG_FRAMEBUFFER_CONSOLE good_kernel"
  "CONFIG_LOGO good_kernel" "devm_ioremap_resource good_kernel = 0xF0000000"
  "ioremap good_kernel p s = 0xE0000000"
  "dma_alloc_coherent good_kernel s = (0xC1000000, 0x01000000)"
  "fb_alloc_cmap good_kernel n t = 0" "register_framebuffer good_kernel = 0"
  by (simp_all add: good_kernel_def)

lemma kernel_variants:
  "devm_ioremap_resource map_fails_kernel = 0xF0000000"
  "ioremap map_fails_kernel p s = 0"
  "devm_ioremap_resource alloc_fails_kernel = 0xF0000000"
  "PAGE_SIZE alloc_fails_kernel = 4096"
  "dma_alloc_coherent alloc_fails_kernel s = (0, 0)"
  "devm_ioremap_resource register_fails_kernel = 0xF0000000"
  "PAGE_SIZE register_fails_kernel = 4096"
  "ioremap register_fails_kernel p s = 0xE0000000"
  "dma_alloc_coherent register_fails_kernel s = (0xC1000000, 0x01000000)"
  "fb_alloc_cmap register_fails_kernel n t = 0"
  "register_framebuffer register_fails_kernel = - 22"
  by (simp_all add: map_fails_kernel_def alloc_fails_kernel_def register_fails_kernel_def
      good_kernel_def)

lemma pdata_simps:
  "fb_phys fixed_pdata = 0x10000000" "fb_phys gslcd_fb_default_pdata = 0"
  "xvirt fixed_pdata * yvirt fixed_pdata * BYTES_PER_PIXEL = 1152000"
  "xvirt gslcd_fb_default_pdata * yvirt gslcd_fb_default_pdata * BYTES_PER_PIXEL = 1152000"
  by (simp_all add: fixed_pdata_def gslcd_fb_default_pdata_def BYTES_PER_PIXEL_def)

lemma page_align_4096: "PAGE_ALIGN good_kernel 1152000 = 1155072"
  by (simp add: PAGE_ALIGN_def good_kernel_simps)

lemma w0_simps: "trace w0 = []" "io w0 a = 0" "mem w0 a = 0xFF"
  by (simp_all add: w0_def)

lemma not_is_err: "\<not> IS_ERR 0xF0000000"
  by (simp add: IS_ERR_def MAX_ERRNO_def)

subsection \<open>Palette\<close>

lemma palette_index:
  fixes regno :: u32
  assumes "regno < 16"
  shows "\<not> regno \<ge> PALETTE_ENTRIES_NO" and "unat regno < 16"
proof -
  show "\<not> regno \<ge> PALETTE_ENTRIES_NO"
    using assms by (simp add: PALETTE_ENTRIES_NO_def not_le)
  show "unat regno < 16"
    using assms by (simp add: word_less_nat_alt)
qed

text \<open>The top byte of a 16-bit component.\<close>

lemma byte_of_u16:
  fixes x :: u32
  assumes "x \<le> 0xFFFF"
  shows "drop_bit 8 x < 256"
proof -
  have "unat x \<le> 65535"
    using assms by (simp add: word_le_nat_alt)
  moreover have "unat (drop_bit 8 x) = unat x div 2 ^ 8"
    by (subst unat_drop_bit_eq) (rule drop_bit_eq_div)
  ultimately have "unat (drop_bit 8 x) < 256"
    by simp
  then show ?thesis
    by (simp add: word_less_nat_alt)
qed

text \<open>Three bytes packed at the three shifts are read back from the three fields.\<close>

lemma fields_of_bytes:
  fixes r g b :: u32
  assumes "r < 256" and "g < 256" and "b < 256"
  shows "field 16 (push_bit 16 r OR push_bit 8 g OR push_bit 0 b) = r"
    and "field 8 (push_bit 16 r OR push_bit 8 g OR push_bit 0 b) = g"
    and "field 0 (push_bit 16 r OR push_bit 8 g OR push_bit 0 b) = b"
proof -
  have low: "\<And>n. bit y n \<Longrightarrow> n < 8" if "y < 256" for y :: u32
  proof -
    from that have "y < 2 ^ 8"
      by simp
    then have "take_bit 8 y = y"
      by (simp add: take_bit_eq_mask less_mask_eq)
    then show "\<And>n. bit y n \<Longrightarrow> n < 8"
      by (metis bit_take_bit_iff)
  qed
  note lr = low [OF assms(1)] and lg = low [OF assms(2)] and lb = low [OF assms(3)]
  show "field 16 (push_bit 16 r OR push_bit 8 g OR push_bit 0 b) = r"
    unfolding field_def
    by (rule bit_eqI) (auto simp add: bit_simps dest: lr lg lb)
  show "field 8 (push_bit 16 r OR push_bit 8 g OR push_bit 0 b) = g"
    unfolding field_def
    by (rule bit_eqI) (auto simp add: bit_simps dest: lr lg lb)
  show "field 0 (push_bit 16 r OR push_bit 8 g OR push_bit 0 b) = b"
    unfolding field_def
    by (rule bit_eqI) (auto simp add: bit_simps dest: lr lg lb)
qed

text \<open>
  Claim C3. For every palette index below 16 and all component inputs, with grayscale
  off, setting the palette entry returns 0 and writes exactly
  \<open>((red >> 8) << 16) | ((green >> 8) << 8) | ((blue >> 8) << 0)\<close> at that index,
  changes nothing else, and a different transparency input gives the same result.
  For 16-bit components the three fields of the stored word are the top bytes of
  red, green and blue.
\<close>

theorem setcolreg_truecolor:
  assumes "regno < 16" and "grayscale (fb_var (info fbi)) = 0"
    and "length (pseudo_palette fbi) = 16"
    and "stored = pseudo_palette (snd (gslcd_fb_setcolreg regno red green blue transpv fbi))
                    ! unat regno"
  shows "gslcd_fb_setcolreg regno red green blue transpv fbi =
           (0, fbi\<lparr>pseudo_palette := (pseudo_palette fbi)
                 [unat regno := push_bit 16 (drop_bit 8 red) OR push_bit 8 (drop_bit 8 green)
                                OR push_bit 0 (drop_bit 8 blue)]\<rparr>)
         \<and> stored = push_bit 16 (drop_bit 8 red) OR push_bit 8 (drop_bit 8 green)
                      OR push_bit 0 (drop_bit 8 blue)
         \<and> gslcd_fb_setcolreg regno red green blue transpw fbi =
             gslcd_fb_setcolreg regno red green blue transpv fbi
         \<and> (red \<le> 0xFFFF \<and> green \<le> 0xFFFF \<and> blue \<le> 0xFFFF \<longrightarrow>
                field RED_SHIFT stored = drop_bit 8 red
              \<and> field GREEN_SHIFT stored = drop_bit 8 green
              \<and> field BLUE_SHIFT stored = drop_bit 8 blue)"
proof -
  note idx = palette_index [OF assms(1)]
  have res: "gslcd_fb_setcolreg regno red green blue t fbi =
           (0, fbi\<lparr>pseudo_palette := (pseudo_palette fbi)
                 [unat regno := push_bit 16 (drop_bit 8 red) OR push_bit 8 (drop_bit 8 green)
                                OR push_bit 0 (drop_bit 8 blue)]\<rparr>)" for t
    using idx assms(2)
    by (simp add: gslcd_fb_setcolreg_def RED_SHIFT_def GREEN_SHIFT_def BLUE_SHIFT_def)
  have st: "stored = push_bit 16 (drop_bit 8 red) OR push_bit 8 (drop_bit 8 green)
                      OR push_bit 0 (drop_bit 8 blue)"
    unfolding assms(4) res using idx(2) assms(3) by simp
  have "field RED_SHIFT stored = drop_bit 8 red \<and> field GREEN_SHIFT stored = drop_bit 8 green
        \<and> field BLUE_SHIFT stored = drop_bit 8 blue"
    if "red \<le> 0xFFFF \<and> green \<le> 0xFFFF \<and> blue \<le> 0xFFFF"
    unfolding st RED_SHIFT_def GREEN_SHIFT_def BLUE_SHIFT_def
    using that by (intro conjI fields_of_bytes byte_of_u16) simp_all
  with res st show ?thesis by simp
qed

theorem setcolreg_truecolor_witness:
  "(5::u32) < 16 \<and> grayscale (fb_var (info kzalloc_drvdata)) = 0
   \<and> length (pseudo_palette kzalloc_drvdata) = 16
   \<and> (0x1234::u32) \<le> 0xFFFF \<and> (0xABCD::u32) \<le> 0xFFFF \<and> (0xFFFF::u32) \<le> 0xFFFF
   \<and> fst (gslcd_fb_setcolreg 5 0x1234 0xABCD 0xFFFF 7 kzalloc_drvdata) = 0
   \<and> pseudo_palette (snd (gslcd_fb_setcolreg 5 0x1234 0xABCD 0xFFFF 7 kzalloc_drvdata)) ! 5
        = 0x12ABFF
   \<and> field GREEN_SHIFT
        (pseudo_palette (snd (gslcd_fb_setcolreg 5 0x1234 0xABCD 0xFFFF 7 kzalloc_drvdata)) ! 5)
        = 0xAB"
  using setcolreg_truecolor [where regno = 5 and fbi = kzalloc_drvdata and red = "0x1234"
      and green = "0xABCD" and blue = "0xFFFF" and transpv = 7 and transpw = 9, OF _ _ _ refl]
  by (simp add: kzalloc_drvdata_def PALETTE_ENTRIES_NO_def field_def GREEN_SHIFT_def)

text \<open>
  Claim C4. For every index of 16 or more and all colour inputs, setting the palette
  entry returns the error \<open>-EINVAL\<close> (index out of range, not success) and leaves the
  palette, and the rest of the driver data, as it was.
\<close>

theorem setcolreg_out_of_range:
  "regno \<ge> 16 \<Longrightarrow>
     gslcd_fb_setcolreg regno red green blue transpv fbi = (- EINVAL, fbi)
     \<and> pseudo_palette (snd (gslcd_fb_setcolreg regno red green blue transpv fbi))
         = pseudo_palette fbi
     \<and> - EINVAL \<noteq> 0"
  by (simp add: gslcd_fb_setcolreg_def PALETTE_ENTRIES_NO_def EINVAL_def)

theorem setcolreg_out_of_range_witness:
  "(16::u32) \<ge> 16
   \<and> gslcd_fb_setcolreg 16 0xFFFF 0x8000 0 0 kzalloc_drvdata = (- EINVAL, kzalloc_drvdata)
   \<and> pseudo_palette (snd (gslcd_fb_setcolreg 16 0xFFFF 0x8000 0 0 kzalloc_drvdata))
         = replicate 16 0"
  using setcolreg_out_of_range [of 16 "0xFFFF" "0x8000" 0 0 kzalloc_drvdata]
  by (simp add: kzalloc_drvdata_def PALETTE_ENTRIES_NO_def)

text \<open>
  With 16-bit components the weighted sum stays below \<open>2 ^ 24\<close>, so the luminance,
  shifted down twice, is a byte.
\<close>

lemma lum_bound:
  fixes red green blue :: u32
  assumes "red \<le> 0xFFFF" "green \<le> 0xFFFF" "blue \<le> 0xFFFF"
  shows "drop_bit 8 (drop_bit 8 (red * 77 + green * 151 + blue * 28 + 127)) < 256"
proof -
  have r: "unat red \<le> 65535" and g: "unat green \<le> 65535" and b: "unat blue \<le> 65535"
    using assms by (simp_all add: word_le_nat_alt)
  have "unat (red * 77 + green * 151 + blue * 28 + 127)
          = (unat red * 77 + unat green * 151 + unat blue * 28 + 127) mod 2 ^ 32"
    by (simp add: unat_word_ariths mod_simps)
  also have "\<dots> = unat red * 77 + unat green * 151 + unat blue * 28 + 127"
    using r g b by simp
  finally have s: "unat (red * 77 + green * 151 + blue * 28 + 127) < 2 ^ 24"
    using r g b by simp
  have "unat (drop_bit 16 (red * 77 + green * 151 + blue * 28 + 127))
          = unat (red * 77 + green * 151 + blue * 28 + 127) div 2 ^ 16"
    by (subst unat_drop_bit_eq) (rule drop_bit_eq_div)
  then have "unat (drop_bit 16 (red * 77 + green * 151 + blue * 28 + 127)) < 256"
    using s by simp
  then show ?thesis
    by (simp add: drop_bit_drop_bit word_less_nat_alt)
qed

text \<open>
  Claim C5, as the code has it. For every palette index below 16, with grayscale on,
  setting the palette entry returns 0, replaces red, green and blue by the one
  luminance \<open>lum = (red * 77 + green * 151 + blue * 28 + 127) >> 8\<close> of the inputs
  before the downshift (in 32-bit unsigned arithmetic) and stores
  \<open>((lum >> 8) << 16) | ((lum >> 8) << 8) | (lum >> 8)\<close>. When the three components
  are 16-bit values (at most \<open>0xFFFF\<close>, what the frame buffer layer passes), the red,
  green and blue fields of the stored value are equal: each is \<open>lum >> 8\<close>.
\<close>

theorem setcolreg_grayscale:
  assumes "regno < 16" and "grayscale (fb_var (info fbi)) \<noteq> 0"
    and "length (pseudo_palette fbi) = 16"
    and "lum = drop_bit 8 (red * 77 + green * 151 + blue * 28 + 127)"
    and "stored = pseudo_palette (snd (gslcd_fb_setcolreg regno red green blue transpv fbi))
                    ! unat regno"
  shows "fst (gslcd_fb_setcolreg regno red green blue transpv fbi) = 0
         \<and> stored = push_bit 16 (drop_bit 8 lum) OR push_bit 8 (drop_bit 8 lum)
                      OR push_bit 0 (drop_bit 8 lum)
         \<and> (red \<le> 0xFFFF \<and> green \<le> 0xFFFF \<and> blue \<le> 0xFFFF \<longrightarrow>
                field RED_SHIFT stored = drop_bit 8 lum
              \<and> field GREEN_SHIFT stored = drop_bit 8 lum
              \<and> field BLUE_SHIFT stored = drop_bit 8 lum)"
proof -
  note idx = palette_index [OF assms(1)]
  have res: "fst (gslcd_fb_setcolreg regno red green blue transpv fbi) = 0"
    using idx by (simp add: gslcd_fb_setcolreg_def Let_def)
  have st: "stored = push_bit 16 (drop_bit 8 lum) OR push_bit 8 (drop_bit 8 lum)
                       OR push_bit 0 (drop_bit 8 lum)"
    using idx assms(2-5)
    by (simp add: gslcd_fb_setcolreg_def RED_SHIFT_def GREEN_SHIFT_def BLUE_SHIFT_def)
  have "field RED_SHIFT stored = drop_bit 8 lum \<and> field GREEN_SHIFT stored = drop_bit 8 lum
        \<and> field BLUE_SHIFT stored = drop_bit 8 lum"
    if "red \<le> 0xFFFF \<and> green \<le> 0xFFFF \<and> blue \<le> 0xFFFF"
  proof -
    have "drop_bit 8 lum < 256"
      unfolding assms(4) using that by (intro lum_bound) simp_all
    then show ?thesis
      unfolding st RED_SHIFT_def GREEN_SHIFT_def BLUE_SHIFT_def
      by (intro conjI fields_of_bytes)
  qed
  with res st show ?thesis by blast
qed

theorem setcolreg_grayscale_witness:
  "(3::u32) < 16 \<and> grayscale (fb_var (info gray_drvdata)) \<noteq> 0
   \<and> length (pseudo_palette gray_drvdata) = 16
   \<and> (0xFFFF::u32) \<le> 0xFFFF \<and> (0x8000::u32) \<le> 0xFFFF \<and> (0x0100::u32) \<le> 0xFFFF
   \<and> field RED_SHIFT
        (pseudo_palette (snd (gslcd_fb_setcolreg 3 0xFFFF 0x8000 0x0100 0 gray_drvdata)) ! 3) = 0x98
   \<and> field GREEN_SHIFT
        (pseudo_palette (snd (gslcd_fb_setcolreg 3 0xFFFF 0x8000 0x0100 0 gray_drvdata)) ! 3) = 0x98
   \<and> field BLUE_SHIFT
        (pseudo_palette (snd (gslcd_fb_setcolreg 3 0xFFFF 0x8000 0x0100 0 gray_drvdata)) ! 3) = 0x98"
  using setcolreg_grayscale
    [of 3 gray_drvdata "drop_bit 8 (0xFFFF * 77 + 0x8000 * 151 + 0x0100 * 28 + 127)"
      "0xFFFF" "0x8000" "0x0100"
      "pseudo_palette (snd (gslcd_fb_setcolreg 3 0xFFFF 0x8000 0x0100 0 gray_drvdata)) ! 3" 0]
  by (simp add: gray_drvdata_def kzalloc_drvdata_def PALETTE_ENTRIES_NO_def field_def
      RED_SHIFT_def GREEN_SHIFT_def BLUE_SHIFT_def)

text \<open>
  Claim C5 as stated, for all inputs, fails: the components are \<open>unsigned\<close>, and with
  red = green = blue = \<open>0x10000\<close> at index 0 the luminance is \<open>0x10000\<close>, its downshift
  \<open>0x100\<close> is wider than a byte, and the stored word is \<open>0x01010100\<close>: the green field
  is 1 and the blue field is 0.
\<close>

theorem setcolreg_grayscale_counterexample:
  "pseudo_palette (snd (gslcd_fb_setcolreg 0 0x10000 0x10000 0x10000 0 gray_drvdata)) ! 0
     = 0x01010100
   \<and> field GREEN_SHIFT
     (pseudo_palette (snd (gslcd_fb_setcolreg 0 0x10000 0x10000 0x10000 0 gray_drvdata)) ! 0) = 1
   \<and> field BLUE_SHIFT
     (pseudo_palette (snd (gslcd_fb_setcolreg 0 0x10000 0x10000 0x10000 0 gray_drvdata)) ! 0) = 0"
  by (simp add: gslcd_fb_setcolreg_def gray_drvdata_def kzalloc_drvdata_def
      PALETTE_ENTRIES_NO_def field_def GREEN_SHIFT_def BLUE_SHIFT_def RED_SHIFT_def)

subsection \<open>Worlds\<close>

lemma emit_simps:
  "trace (emit e w) = trace w @ [e]" "io (emit e w) = io w" "mem (emit e w) = mem w"
  by (simp_all add: emit_def)

lemma out32_simps:
  "trace (gslcd_fb_out32 d off v w) = trace w @ [Iowrite32 v (regs d + push_bit 2 off)]"
  "io (gslcd_fb_out32 d off v w) = (io w)(regs d + push_bit 2 off := v)"
  "mem (gslcd_fb_out32 d off v w) = mem w"
  by (simp_all add: gslcd_fb_out32_def iowrite32_def emit_def)

lemma memset_simps:
  "trace (memset_io dst c n w) = trace w @ [MemsetIo dst c n]"
  "io (memset_io dst c n w) = io w"
  "mem (memset_io dst c n w) = (\<lambda>a. if a - dst < n then c else mem w a)"
  by (simp_all add: memset_io_def emit_def)

lemmas call_defs = dma_free_coherent_def iounmap_def fb_dealloc_cmap_def
  unregister_framebuffer_def

lemma en_addr: "regs d + push_bit 2 REG_OFF_EN = regs d"
  by (simp add: REG_OFF_EN_def)

lemma fb_ptr_addr: "regs d + push_bit 2 REG_OFF_FB_PTR = regs d + 4"
  by (simp add: REG_OFF_FB_PTR_def)

subsection \<open>Blanking\<close>

text \<open>
  Claim C6. The blank operation always returns 0. Unblank makes one register write,
  of 1 to the enable register, after which the display is enabled; each of the four
  blank modes makes one register write, of 0 to the enable register, after which the
  display is disabled.
\<close>

theorem blank_state_machine:
  "fst (gslcd_fb_blank blank_mode drvdata w) = 0
   \<and> (blank_mode = FB_BLANK_UNBLANK \<longrightarrow>
        calls w (blank_world blank_mode drvdata w) = [Iowrite32 1 (regs drvdata)]
        \<and> gslcd_fb_in32 drvdata REG_OFF_EN (blank_world blank_mode drvdata w) = 1
        \<and> display_state_of drvdata (blank_world blank_mode drvdata w) = Enabled)
   \<and> (blank_mode \<in> {FB_BLANK_NORMAL, FB_BLANK_VSYNC_SUSPEND, FB_BLANK_HSYNC_SUSPEND,
                      FB_BLANK_POWERDOWN} \<longrightarrow>
        calls w (blank_world blank_mode drvdata w) = [Iowrite32 0 (regs drvdata)]
        \<and> gslcd_fb_in32 drvdata REG_OFF_EN (blank_world blank_mode drvdata w) = 0
        \<and> display_state_of drvdata (blank_world blank_mode drvdata w) = Disabled)"
proof -
  have en: "regs drvdata + push_bit 2 REG_OFF_EN = regs drvdata"
    by (simp add: REG_OFF_EN_def)
  have on: "calls w (gslcd_fb_out32 drvdata REG_OFF_EN v w) = [Iowrite32 v (regs drvdata)]"
    and rd: "gslcd_fb_in32 drvdata REG_OFF_EN (gslcd_fb_out32 drvdata REG_OFF_EN v w) = v" for v
    by (simp_all add: calls_def out32_simps en gslcd_fb_in32_def ioread32_def)
  show ?thesis
    by (auto simp add: gslcd_fb_blank_def blank_world_def on rd display_state_of_def
        FB_BLANK_UNBLANK_def FB_BLANK_NORMAL_def FB_BLANK_VSYNC_SUSPEND_def
        FB_BLANK_HSYNC_SUSPEND_def FB_BLANK_POWERDOWN_def)
qed

theorem blank_state_machine_witness:
  "calls w0 (blank_world FB_BLANK_UNBLANK kzalloc_drvdata w0) = [Iowrite32 1 0]
   \<and> display_state_of kzalloc_drvdata (blank_world FB_BLANK_UNBLANK kzalloc_drvdata w0) = Enabled
   \<and> FB_BLANK_POWERDOWN \<in> {FB_BLANK_NORMAL, FB_BLANK_VSYNC_SUSPEND, FB_BLANK_HSYNC_SUSPEND,
                      FB_BLANK_POWERDOWN}
   \<and> calls w0 (blank_world FB_BLANK_POWERDOWN kzalloc_drvdata w0) = [Iowrite32 0 0]
   \<and> display_state_of kzalloc_drvdata (blank_world FB_BLANK_POWERDOWN kzalloc_drvdata w0) = Disabled"
  using blank_state_machine [of FB_BLANK_UNBLANK kzalloc_drvdata w0]
    blank_state_machine [of FB_BLANK_POWERDOWN kzalloc_drvdata w0]
  by (simp add: kzalloc_drvdata_def)

text \<open>
  Claim C10. For a blank mode that is none of the five named modes, the blank
  operation makes no call at all, leaves the world (registers, memory, trace) as it
  was, and returns 0. The operation has no access to the driver data but to read
  \<open>regs\<close>.
\<close>

theorem blank_other_mode:
  "blank_mode \<notin> {FB_BLANK_UNBLANK, FB_BLANK_NORMAL, FB_BLANK_VSYNC_SUSPEND,
       FB_BLANK_HSYNC_SUSPEND, FB_BLANK_POWERDOWN} \<Longrightarrow>
     gslcd_fb_blank blank_mode drvdata w = (0, w)
     \<and> calls w (blank_world blank_mode drvdata w) = []
     \<and> gslcd_fb_in32 drvdata REG_OFF_EN (blank_world blank_mode drvdata w)
         = gslcd_fb_in32 drvdata REG_OFF_EN w"
  by (simp add: gslcd_fb_blank_def blank_world_def calls_def)

theorem blank_other_mode_witness:
  "5 \<notin> {FB_BLANK_UNBLANK, FB_BLANK_NORMAL, FB_BLANK_VSYNC_SUSPEND,
       FB_BLANK_HSYNC_SUSPEND, FB_BLANK_POWERDOWN}
   \<and> gslcd_fb_blank 5 kzalloc_drvdata w0 = (0, w0)
   \<and> - 1 \<notin> {FB_BLANK_UNBLANK, FB_BLANK_NORMAL, FB_BLANK_VSYNC_SUSPEND,
       FB_BLANK_HSYNC_SUSPEND, FB_BLANK_POWERDOWN}
   \<and> gslcd_fb_blank (- 1) kzalloc_drvdata w0 = (0, w0)"
  using blank_other_mode [of 5 kzalloc_drvdata w0] blank_other_mode [of "- 1" kzalloc_drvdata w0]
  by (simp add: FB_BLANK_UNBLANK_def FB_BLANK_NORMAL_def FB_BLANK_VSYNC_SUSPEND_def
        FB_BLANK_HSYNC_SUSPEND_def FB_BLANK_POWERDOWN_def)

subsection \<open>Teardown\<close>

lemma release_summary:
  "fst (gslcdfb_release k drvdata w) = 0
   \<and> calls w (release_world k drvdata w) =
       (if \<not> CONFIG_FRAMEBUFFER_CONSOLE k \<and> CONFIG_LOGO k then [Iowrite32 0 (regs drvdata)]
        else [])
       @ [UnregisterFramebuffer, FbDeallocCmap,
          (if ownership_tag drvdata = Allocated
           then DmaFreeCoherent (PAGE_ALIGN k (smem_len (fb_fix (info drvdata))))
                  (fb_virt drvdata) (drv_fb_phys drvdata)
           else Iounmap (fb_virt drvdata)),
          Iowrite32 0 (regs drvdata)]
   \<and> display_state_of drvdata (release_world k drvdata w) = Disabled"
  by (simp add: gslcdfb_release_def release_world_def calls_def Let_def call_defs
      emit_simps out32_simps en_addr gslcd_fb_blank_def VESA_POWERDOWN_def
      FB_BLANK_UNBLANK_def FB_BLANK_NORMAL_def FB_BLANK_VSYNC_SUSPEND_def
      FB_BLANK_HSYNC_SUSPEND_def FB_BLANK_POWERDOWN_def ownership_tag_def
      display_state_of_def gslcd_fb_in32_def ioread32_def)

text \<open>
  Claim C8. Release returns 0 for every handle. Its calls are, in this order:
  unregistration, colour map deallocation, the release of the frame buffer that the
  ownership tag selects, and last a write of 0 to the enable register, which leaves
  the display disabled. In the one configuration that compiles the blanking call in,
  a write of 0 to the enable register comes before them.
\<close>

theorem release_never_fails:
  "fst (gslcdfb_release k drvdata w) = 0
   \<and> calls w (release_world k drvdata w) =
       (if \<not> CONFIG_FRAMEBUFFER_CONSOLE k \<and> CONFIG_LOGO k then [Iowrite32 0 (regs drvdata)]
        else [])
       @ [UnregisterFramebuffer, FbDeallocCmap,
          (if ownership_tag drvdata = Allocated
           then DmaFreeCoherent (PAGE_ALIGN k (smem_len (fb_fix (info drvdata))))
                  (fb_virt drvdata) (drv_fb_phys drvdata)
           else Iounmap (fb_virt drvdata)),
          Iowrite32 0 (regs drvdata)]
   \<and> display_state_of drvdata (release_world k drvdata w) = Disabled"
  by (rule release_summary)

theorem release_never_fails_witness:
  "fst (gslcdfb_release logo_kernel kzalloc_drvdata w0) = 0
   \<and> calls w0 (release_world logo_kernel kzalloc_drvdata w0)
       = [Iowrite32 0 0, UnregisterFramebuffer, FbDeallocCmap, Iounmap 0, Iowrite32 0 0]
   \<and> calls w0 (release_world good_kernel (kzalloc_drvdata\<lparr>fb_alloced := 1\<rparr>) w0)
       = [UnregisterFramebuffer, FbDeallocCmap, DmaFreeCoherent 0 0 0, Iowrite32 0 0]"
  using release_never_fails [of logo_kernel kzalloc_drvdata w0]
    release_never_fails [of good_kernel "kzalloc_drvdata\<lparr>fb_alloced := 1\<rparr>" w0]
  by (simp add: logo_kernel_def good_kernel_def kzalloc_drvdata_def ownership_tag_def
      PAGE_ALIGN_def)

lemma release_fb_calls:
  "filter is_fb_release (calls w (release_world k h w))
     = [if ownership_tag h = Allocated
        then DmaFreeCoherent (PAGE_ALIGN k (smem_len (fb_fix (info h)))) (fb_virt h)
               (drv_fb_phys h)
        else Iounmap (fb_virt h)]"
  using release_summary [of k h w] by simp

subsection \<open>Setup\<close>

lemma alloc_fb_drvdata:
  "regs (fst (alloc_fb k pdata s d w)) = regs d"
  "fb_alloced (fst (alloc_fb k pdata s d w)) = (if fb_phys pdata \<noteq> 0 then fb_alloced d else 1)"
  "fb_virt (fst (alloc_fb k pdata s d w)) =
     (if fb_phys pdata \<noteq> 0 then ioremap k (fb_phys pdata) s
      else fst (dma_alloc_coherent k (PAGE_ALIGN k s)))"
  "drv_fb_phys (fst (alloc_fb k pdata s d w)) =
     (if fb_phys pdata \<noteq> 0 then fb_phys pdata
      else snd (dma_alloc_coherent k (PAGE_ALIGN k s)))"
  "info (fst (alloc_fb k pdata s d w)) = info d"
  "pseudo_palette (fst (alloc_fb k pdata s d w)) = pseudo_palette d"
  by (simp_all add: alloc_fb_def case_prod_beta Let_def)

lemma alloc_fb_world:
  "trace (snd (alloc_fb k pdata s d w)) = trace w @
     [if fb_phys pdata \<noteq> 0 then Ioremap (fb_phys pdata) s (ioremap k (fb_phys pdata) s)
      else DmaAllocCoherent (PAGE_ALIGN k s) (fst (dma_alloc_coherent k (PAGE_ALIGN k s)))
             (snd (dma_alloc_coherent k (PAGE_ALIGN k s)))]"
  "io (snd (alloc_fb k pdata s d w)) = io w"
  "mem (snd (alloc_fb k pdata s d w)) = mem w"
  by (simp_all add: alloc_fb_def case_prod_beta Let_def emit_simps)

lemma err_cmap_simps:
  "fst (err_cmap k s rc d w) = rc"
  "fst (snd (err_cmap k s rc d w)) = d"
  "trace (snd (snd (err_cmap k s rc d w))) = trace w @
     [if fb_alloced d \<noteq> 0 then DmaFreeCoherent (PAGE_ALIGN k s) (fb_virt d) (drv_fb_phys d)
      else Iounmap (fb_virt d), Iowrite32 0 (regs d)]"
  "io (snd (snd (err_cmap k s rc d w))) = (io w)(regs d := 0)"
  "mem (snd (snd (err_cmap k s rc d w))) = mem w"
  by (simp_all add: err_cmap_def Let_def call_defs emit_simps out32_simps en_addr)

lemma err_regfb_simps:
  "fst (err_regfb k s rc d w) = rc"
  "fst (snd (err_regfb k s rc d w)) = d"
  "trace (snd (snd (err_regfb k s rc d w))) = trace w @
     [FbDeallocCmap,
      if fb_alloced d \<noteq> 0 then DmaFreeCoherent (PAGE_ALIGN k s) (fb_virt d) (drv_fb_phys d)
      else Iounmap (fb_virt d), Iowrite32 0 (regs d)]"
  "io (snd (snd (err_regfb k s rc d w))) = (io w)(regs d := 0)"
  "mem (snd (snd (err_regfb k s rc d w))) = mem w"
  by (simp_all add: err_regfb_def err_cmap_simps call_defs emit_simps)

lemma fill_fb_info_simps:
  "regs (fill_fb_info pdata s d) = regs d"
  "fb_alloced (fill_fb_info pdata s d) = fb_alloced d"
  "fb_virt (fill_fb_info pdata s d) = fb_virt d"
  "drv_fb_phys (fill_fb_info pdata s d) = drv_fb_phys d"
  "pseudo_palette (fill_fb_info pdata s d) = pseudo_palette d"
  "smem_len (fb_fix (info (fill_fb_info pdata s d))) = s"
  "smem_start (fb_fix (info (fill_fb_info pdata s d))) = drv_fb_phys d"
  "line_length (fb_fix (info (fill_fb_info pdata s d))) = xvirt pdata * BYTES_PER_PIXEL"
  "grayscale (fb_var (info (fill_fb_info pdata s d))) = 0"
  "screen_base (info (fill_fb_info pdata s d)) = fb_virt d"
  by (simp_all add: fill_fb_info_def)

text \<open>The three stages of assign, with the frame buffer block kept folded.\<close>

lemma assign_regs_failed:
  assumes "IS_ERR (devm_ioremap_resource k)"
  shows "gslcdfb_assign k pdata drvdata w =
           (PTR_ERR (devm_ioremap_resource k), drvdata\<lparr>regs := devm_ioremap_resource k\<rparr>,
            emit (DevmIoremapResource (devm_ioremap_resource k)) w)"
  using assms by (simp add: gslcdfb_assign_def Let_def)

lemma assign_fb_failed:
  assumes "\<not> IS_ERR (devm_ioremap_resource k)"
    and "a = alloc_fb k pdata (xvirt pdata * yvirt pdata * BYTES_PER_PIXEL)
               (drvdata\<lparr>regs := devm_ioremap_resource k, regs_phys := res_start k\<rparr>)
               (emit (DevmIoremapResource (devm_ioremap_resource k)) w)"
    and "fb_virt (fst a) = 0"
  shows "gslcdfb_assign k pdata drvdata w = (- ENOMEM, fst a, snd a)"
  using assms by (simp add: gslcdfb_assign_def Let_def case_prod_beta)

lemma assign_fb_acquired:
  assumes "\<not> IS_ERR (devm_ioremap_resource k)"
    and "s = xvirt pdata * yvirt pdata * BYTES_PER_PIXEL"
    and "a = alloc_fb k pdata s
               (drvdata\<lparr>regs := devm_ioremap_resource k, regs_phys := res_start k\<rparr>)
               (emit (DevmIoremapResource (devm_ioremap_resource k)) w)"
    and "fb_virt (fst a) \<noteq> 0"
    and "w7 = emit (FbAllocCmap PALETTE_ENTRIES_NO 0 (fb_alloc_cmap k PALETTE_ENTRIES_NO 0))
               (gslcd_fb_out32 (fst a) REG_OFF_EN 1
                 (gslcd_fb_out32 (fst a) REG_OFF_FB_PTR (drv_fb_phys (fst a))
                   (memset_io (fb_virt (fst a)) 0 s (snd a))))"
  shows "gslcdfb_assign k pdata drvdata w =
           (if fb_alloc_cmap k PALETTE_ENTRIES_NO 0 \<noteq> 0
            then err_cmap k s (fb_alloc_cmap k PALETTE_ENTRIES_NO 0)
                   (fill_fb_info pdata s (fst a)) w7
            else if register_framebuffer k \<noteq> 0
            then err_regfb k s (register_framebuffer k) (fill_fb_info pdata s (fst a))
                   (emit (RegisterFramebuffer (register_framebuffer k)) w7)
            else (0, fill_fb_info pdata s (fst a),
                  emit (RegisterFramebuffer (register_framebuffer k)) w7))"
  using assms(1,4) unfolding assms(2,3,5)
  by (simp add: gslcdfb_assign_def Let_def case_prod_beta)

lemma w7_simps:
  assumes "w7 = emit (FbAllocCmap n t rc)
               (gslcd_fb_out32 d REG_OFF_EN 1
                 (gslcd_fb_out32 d REG_OFF_FB_PTR p (memset_io v 0 s w3)))"
  shows "trace w7 = trace w3 @ [MemsetIo v 0 s, Iowrite32 p (regs d + 4), Iowrite32 1 (regs d),
                                 FbAllocCmap n t rc]"
    and "io w7 = (io w3)(regs d + 4 := p, regs d := 1)"
    and "mem w7 = (\<lambda>a. if a - v < s then 0 else mem w3 a)"
  unfolding assms
  by (simp_all add: emit_simps out32_simps memset_simps en_addr fb_ptr_addr)

lemma assign_summary:
  assumes ok: "\<not> IS_ERR (devm_ioremap_resource k)"
    and s: "s = xvirt pdata * yvirt pdata * BYTES_PER_PIXEL"
    and d: "d = assign_drvdata k pdata drvdata w"
    and w': "w' = assign_world k pdata drvdata w"
    and rc1: "rc1 = fb_alloc_cmap k PALETTE_ENTRIES_NO 0"
    and rc2: "rc2 = register_framebuffer k"
    and rel: "rel = (if fb_alloced d \<noteq> 0
                     then DmaFreeCoherent (PAGE_ALIGN k s) (fb_virt d) (drv_fb_phys d)
                     else Iounmap (fb_virt d))"
  shows "regs d = devm_ioremap_resource k"
    and "fb_alloced d = (if fb_phys pdata \<noteq> 0 then fb_alloced drvdata else 1)"
    and "fb_virt d = (if fb_phys pdata \<noteq> 0 then ioremap k (fb_phys pdata) s
                      else fst (dma_alloc_coherent k (PAGE_ALIGN k s)))"
    and "drv_fb_phys d = (if fb_phys pdata \<noteq> 0 then fb_phys pdata
                          else snd (dma_alloc_coherent k (PAGE_ALIGN k s)))"
    and "assign_rc k pdata drvdata w =
           (if fb_virt d = 0 then - ENOMEM else if rc1 \<noteq> 0 then rc1 else rc2)"
    and "calls w w' =
           [DevmIoremapResource (regs d),
            if fb_phys pdata \<noteq> 0 then Ioremap (fb_phys pdata) s (fb_virt d)
            else DmaAllocCoherent (PAGE_ALIGN k s) (fb_virt d) (drv_fb_phys d)]
           @ (if fb_virt d = 0 then []
              else [MemsetIo (fb_virt d) 0 s, Iowrite32 (drv_fb_phys d) (regs d + 4),
                    Iowrite32 1 (regs d), FbAllocCmap PALETTE_ENTRIES_NO 0 rc1]
                   @ (if rc1 \<noteq> 0 then [rel, Iowrite32 0 (regs d)]
                      else RegisterFramebuffer rc2
                           # (if rc2 \<noteq> 0 then [FbDeallocCmap, rel, Iowrite32 0 (regs d)]
                              else [])))"
    and "fb_virt d \<noteq> 0 \<longrightarrow> smem_len (fb_fix (info d)) = s"
    and "fb_virt d \<noteq> 0 \<longrightarrow> mem w' = (\<lambda>a. if a - fb_virt d < s then 0 else mem w a)"
    and "fb_virt d \<noteq> 0 \<longrightarrow>
           io w' (regs d) = (if assign_rc k pdata drvdata w = 0 then 1 else 0)"
proof -
  define a where "a = alloc_fb k pdata s
               (drvdata\<lparr>regs := devm_ioremap_resource k, regs_phys := res_start k\<rparr>)
               (emit (DevmIoremapResource (devm_ioremap_resource k)) w)"
  define w7 where "w7 = emit (FbAllocCmap PALETTE_ENTRIES_NO 0 rc1)
               (gslcd_fb_out32 (fst a) REG_OFF_EN 1
                 (gslcd_fb_out32 (fst a) REG_OFF_FB_PTR (drv_fb_phys (fst a))
                   (memset_io (fb_virt (fst a)) 0 s (snd a))))"
  note w7 = w7_simps [OF w7_def]
  have adrv: "regs (fst a) = devm_ioremap_resource k"
    "fb_alloced (fst a) = (if fb_phys pdata \<noteq> 0 then fb_alloced drvdata else 1)"
    "fb_virt (fst a) = (if fb_phys pdata \<noteq> 0 then ioremap k (fb_phys pdata) s
                        else fst (dma_alloc_coherent k (PAGE_ALIGN k s)))"
    "drv_fb_phys (fst a) = (if fb_phys pdata \<noteq> 0 then fb_phys pdata
                            else snd (dma_alloc_coherent k (PAGE_ALIGN k s)))"
    unfolding a_def by (simp_all add: alloc_fb_drvdata)
  have awld: "trace (snd a) = trace w @
       [DevmIoremapResource (devm_ioremap_resource k),
        if fb_phys pdata \<noteq> 0 then Ioremap (fb_phys pdata) s (ioremap k (fb_phys pdata) s)
        else DmaAllocCoherent (PAGE_ALIGN k s) (fst (dma_alloc_coherent k (PAGE_ALIGN k s)))
               (snd (dma_alloc_coherent k (PAGE_ALIGN k s)))]"
    "io (snd a) = io w" "mem (snd a) = mem w"
    unfolding a_def by (simp_all add: alloc_fb_world emit_simps)
  have all: "regs d = devm_ioremap_resource k
    \<and> fb_alloced d = (if fb_phys pdata \<noteq> 0 then fb_alloced drvdata else 1)
    \<and> fb_virt d = (if fb_phys pdata \<noteq> 0 then ioremap k (fb_phys pdata) s
                      else fst (dma_alloc_coherent k (PAGE_ALIGN k s)))
    \<and> drv_fb_phys d = (if fb_phys pdata \<noteq> 0 then fb_phys pdata
                          else snd (dma_alloc_coherent k (PAGE_ALIGN k s)))
    \<and> assign_rc k pdata drvdata w =
           (if fb_virt d = 0 then - ENOMEM else if rc1 \<noteq> 0 then rc1 else rc2)
    \<and> calls w w' =
           [DevmIoremapResource (regs d),
            if fb_phys pdata \<noteq> 0 then Ioremap (fb_phys pdata) s (fb_virt d)
            else DmaAllocCoherent (PAGE_ALIGN k s) (fb_virt d) (drv_fb_phys d)]
           @ (if fb_virt d = 0 then []
              else [MemsetIo (fb_virt d) 0 s, Iowrite32 (drv_fb_phys d) (regs d + 4),
                    Iowrite32 1 (regs d), FbAllocCmap PALETTE_ENTRIES_NO 0 rc1]
                   @ (if rc1 \<noteq> 0 then [rel, Iowrite32 0 (regs d)]
                      else RegisterFramebuffer rc2
                           # (if rc2 \<noteq> 0 then [FbDeallocCmap, rel, Iowrite32 0 (regs d)]
                              else [])))
    \<and> (fb_virt d \<noteq> 0 \<longrightarrow> smem_len (fb_fix (info d)) = s)
    \<and> (fb_virt d \<noteq> 0 \<longrightarrow> mem w' = (\<lambda>a. if a - fb_virt d < s then 0 else mem w a))
    \<and> (fb_virt d \<noteq> 0 \<longrightarrow>
           io w' (regs d) = (if assign_rc k pdata drvdata w = 0 then 1 else 0))"
  proof (cases "fb_virt (fst a) = 0")
    case True
    have res: "gslcdfb_assign k pdata drvdata w = (- ENOMEM, fst a, snd a)"
      using ok a_def True unfolding s by (rule assign_fb_failed)
    have dd: "d = fst a" and ww: "w' = snd a" and rr: "assign_rc k pdata drvdata w = - ENOMEM"
      by (simp_all add: d w' assign_drvdata_def assign_world_def assign_rc_def res)
    show ?thesis
      using True unfolding dd ww rr
      by (simp add: adrv awld calls_def emit_simps)
  next
    case False
    have res: "gslcdfb_assign k pdata drvdata w =
           (if rc1 \<noteq> 0 then err_cmap k s rc1 (fill_fb_info pdata s (fst a)) w7
            else if rc2 \<noteq> 0
            then err_regfb k s rc2 (fill_fb_info pdata s (fst a))
                   (emit (RegisterFramebuffer rc2) w7)
            else (0, fill_fb_info pdata s (fst a), emit (RegisterFramebuffer rc2) w7))"
      unfolding rc1 rc2 using ok s a_def False w7_def [unfolded rc1]
      by (rule assign_fb_acquired)
    have dd: "d = fill_fb_info pdata s (fst a)"
      by (simp add: d assign_drvdata_def res err_cmap_simps err_regfb_simps)
    have rr: "assign_rc k pdata drvdata w = (if rc1 \<noteq> 0 then rc1 else rc2)"
      by (simp add: assign_rc_def res err_cmap_simps err_regfb_simps)
    have flds: "regs d = devm_ioremap_resource k"
      "fb_alloced d = (if fb_phys pdata \<noteq> 0 then fb_alloced drvdata else 1)"
      "fb_virt d = fb_virt (fst a)" "drv_fb_phys d = drv_fb_phys (fst a)"
      "smem_len (fb_fix (info d)) = s"
      by (simp_all add: dd fill_fb_info_simps adrv)
    have tr: "trace w' = trace w7 @
                (if rc1 \<noteq> 0 then [rel, Iowrite32 0 (regs d)]
                 else RegisterFramebuffer rc2
                      # (if rc2 \<noteq> 0 then [FbDeallocCmap, rel, Iowrite32 0 (regs d)] else []))"
      unfolding rel dd [symmetric]
      by (simp add: w' assign_world_def res err_cmap_simps err_regfb_simps emit_simps
          dd [symmetric])
    have io: "io w' (regs d) = (if rc1 \<noteq> 0 then 0 else if rc2 \<noteq> 0 then 0 else 1)"
      by (simp add: w' assign_world_def res err_cmap_simps err_regfb_simps emit_simps
          dd [symmetric] w7 flds adrv)
    have mm: "mem w' = (\<lambda>x. if x - fb_virt d < s then 0 else mem w x)"
      by (simp add: w' assign_world_def res err_cmap_simps err_regfb_simps emit_simps
          w7 flds awld cong: if_cong)
    show ?thesis
      using False flds
      by (simp add: rr tr io [unfolded flds(1)] mm w7 awld adrv calls_def emit_simps)
  qed
  from all show "regs d = devm_ioremap_resource k" by blast
  from all show "fb_alloced d = (if fb_phys pdata \<noteq> 0 then fb_alloced drvdata else 1)"
    by blast
  from all show "fb_virt d = (if fb_phys pdata \<noteq> 0 then ioremap k (fb_phys pdata) s
                      else fst (dma_alloc_coherent k (PAGE_ALIGN k s)))" by blast
  from all show "drv_fb_phys d = (if fb_phys pdata \<noteq> 0 then fb_phys pdata
                          else snd (dma_alloc_coherent k (PAGE_ALIGN k s)))" by blast
  from all show "assign_rc k pdata drvdata w =
           (if fb_virt d = 0 then - ENOMEM else if rc1 \<noteq> 0 then rc1 else rc2)" by blast
  from all show "calls w w' =
           [DevmIoremapResource (regs d),
            if fb_phys pdata \<noteq> 0 then Ioremap (fb_phys pdata) s (fb_virt d)
            else DmaAllocCoherent (PAGE_ALIGN k s) (fb_virt d) (drv_fb_phys d)]
           @ (if fb_virt d = 0 then []
              else [MemsetIo (fb_virt d) 0 s, Iowrite32 (drv_fb_phys d) (regs d + 4),
                    Iowrite32 1 (regs d), FbAllocCmap PALETTE_ENTRIES_NO 0 rc1]
                   @ (if rc1 \<noteq> 0 then [rel, Iowrite32 0 (regs d)]
                      else RegisterFramebuffer rc2
                           # (if rc2 \<noteq> 0 then [FbDeallocCmap, rel, Iowrite32 0 (regs d)]
                              else [])))" by blast
  from all show "fb_virt d \<noteq> 0 \<longrightarrow> smem_len (fb_fix (info d)) = s" by blast
  from all show "fb_virt d \<noteq> 0 \<longrightarrow> mem w' = (\<lambda>a. if a - fb_virt d < s then 0 else mem w a)"
    by blast
  from all show "fb_virt d \<noteq> 0 \<longrightarrow>
           io w' (regs d) = (if assign_rc k pdata drvdata w = 0 then 1 else 0)" by blast
qed

lemma fb_memory_ok_nonnull:
  assumes "\<not> IS_ERR (devm_ioremap_resource k)" and "fb_memory_ok k pdata"
  shows "fb_virt (assign_drvdata k pdata drvdata w) \<noteq> 0"
proof -
  note sm = assign_summary [where k = k and pdata = pdata and drvdata = drvdata and w = w,
      OF assms(1) refl refl refl refl refl refl]
  show ?thesis
    unfolding sm(3) using assms(2) by (simp add: fb_memory_ok_def Let_def split: if_splits)
qed

text \<open>
  The probe hands \<open>gslcdfb_assign\<close> the default configuration and zeroed driver
  data: the ownership flag is clear and the palette has its 16 entries.
\<close>

lemma probe_passes_fresh_data:
  assumes "devm_kzalloc_ok k"
  shows "gslcdfb_of_probe k w =
           (assign_rc k gslcd_fb_default_pdata kzalloc_drvdata (emit (DevmKzalloc True) w),
            Some (assign_drvdata k gslcd_fb_default_pdata kzalloc_drvdata
                    (emit (DevmKzalloc True) w)),
            assign_world k gslcd_fb_default_pdata kzalloc_drvdata (emit (DevmKzalloc True) w))"
    and "fb_alloced kzalloc_drvdata = 0"
    and "length (pseudo_palette kzalloc_drvdata) = 16"
  using assms
  by (simp_all add: gslcdfb_of_probe_def Let_def assign_rc_def assign_drvdata_def
      assign_world_def case_prod_beta kzalloc_drvdata_def PALETTE_ENTRIES_NO_def)

lemmas account_simps = outstanding_def acquired_def released_def account_def
  List.map_filter_simps fb_resource_def

subsection \<open>Ownership of the frame buffer\<close>

text \<open>
  Claim C1. Take driver data as \<open>devm_kzalloc\<close> returns it (\<open>fb_alloced\<close> zero) and
  registers that map. For every configuration: with a nonzero fixed address the only
  call that obtains frame buffer memory maps that address, for \<open>fbsize\<close> bytes, and
  the tag is \<open>ExternallyProvided\<close>; with a zero address the only such call is the
  coherent allocation of the page-aligned \<open>fbsize\<close>, and the tag is \<open>Allocated\<close>.
  Release of the handle of a successful assign gives the memory back by exactly one
  call: the coherent free with the size, pointer and handle of the allocation when
  it was allocated, the unmap of the mapped pointer otherwise. For every handle,
  release makes exactly the one call that its tag selects.
\<close>

theorem ownership_pairing:
  assumes "fb_alloced drvdata = 0" and "\<not> IS_ERR (devm_ioremap_resource k)"
    and "fbsize = xvirt pdata * yvirt pdata * BYTES_PER_PIXEL"
    and "d = assign_drvdata k pdata drvdata w" and "w' = assign_world k pdata drvdata w"
  shows "(fb_phys pdata \<noteq> 0 \<longrightarrow>
            ownership_tag d = ExternallyProvided
          \<and> filter is_fb_acquire (calls w w') = [Ioremap (fb_phys pdata) fbsize (fb_virt d)])
       \<and> (fb_phys pdata = 0 \<longrightarrow>
            ownership_tag d = Allocated
          \<and> filter is_fb_acquire (calls w w')
              = [DmaAllocCoherent (PAGE_ALIGN k fbsize) (fb_virt d) (drv_fb_phys d)])
       \<and> (assign_rc k pdata drvdata w = 0 \<longrightarrow>
            filter is_fb_release (calls wa (release_world k d wa))
              = [if fb_phys pdata = 0
                 then DmaFreeCoherent (PAGE_ALIGN k fbsize) (fb_virt d) (drv_fb_phys d)
                 else Iounmap (fb_virt d)])
       \<and> filter is_fb_release (calls wb (release_world k h wb))
              = [if ownership_tag h = Allocated
                 then DmaFreeCoherent (PAGE_ALIGN k (smem_len (fb_fix (info h))))
                        (fb_virt h) (drv_fb_phys h)
                 else Iounmap (fb_virt h)]"
proof -
  note sm = assign_summary [OF assms(2,3,4,5) refl refl refl]
  have tag: "ownership_tag d = (if fb_phys pdata = 0 then Allocated else ExternallyProvided)"
    by (simp add: ownership_tag_def sm(2) assms(1))
  have acq: "filter is_fb_acquire (calls w w')
               = [if fb_phys pdata \<noteq> 0 then Ioremap (fb_phys pdata) fbsize (fb_virt d)
                  else DmaAllocCoherent (PAGE_ALIGN k fbsize) (fb_virt d) (drv_fb_phys d)]"
    unfolding sm(6) by simp
  have len: "smem_len (fb_fix (info d)) = fbsize" if "assign_rc k pdata drvdata w = 0"
    using that sm(7) unfolding sm(5) by (simp add: ENOMEM_def split: if_splits)
  show ?thesis
    using tag acq len by (simp add: release_fb_calls)
qed

theorem ownership_pairing_witness:
  "fb_alloced kzalloc_drvdata = 0 \<and> \<not> IS_ERR (devm_ioremap_resource good_kernel)
   \<and> fb_phys fixed_pdata \<noteq> 0
   \<and> ownership_tag (assign_drvdata good_kernel fixed_pdata kzalloc_drvdata w0)
        = ExternallyProvided
   \<and> filter is_fb_acquire (calls w0 (assign_world good_kernel fixed_pdata kzalloc_drvdata w0))
        = [Ioremap 0x10000000 1152000 0xE0000000]
   \<and> assign_rc good_kernel fixed_pdata kzalloc_drvdata w0 = 0
   \<and> filter is_fb_release
        (calls w0 (release_world good_kernel
           (assign_drvdata good_kernel fixed_pdata kzalloc_drvdata w0) w0))
        = [Iounmap 0xE0000000]
   \<and> fb_phys gslcd_fb_default_pdata = 0
   \<and> ownership_tag (assign_drvdata good_kernel gslcd_fb_default_pdata kzalloc_drvdata w0)
        = Allocated
   \<and> filter is_fb_acquire
        (calls w0 (assign_world good_kernel gslcd_fb_default_pdata kzalloc_drvdata w0))
        = [DmaAllocCoherent 1155072 0xC1000000 0x01000000]
   \<and> assign_rc good_kernel gslcd_fb_default_pdata kzalloc_drvdata w0 = 0
   \<and> filter is_fb_release
        (calls w0 (release_world good_kernel
           (assign_drvdata good_kernel gslcd_fb_default_pdata kzalloc_drvdata w0) w0))
        = [DmaFreeCoherent 1155072 0xC1000000 0x01000000]"
proof -
  have ok: "\<not> IS_ERR (devm_ioremap_resource good_kernel)"
    by (simp add: good_kernel_simps IS_ERR_def MAX_ERRNO_def)
  have fresh: "fb_alloced kzalloc_drvdata = 0"
    by (simp add: kzalloc_drvdata_def)
  note fx = assign_summary [where k = good_kernel and pdata = fixed_pdata
      and drvdata = kzalloc_drvdata and w = w0, OF ok refl refl refl refl refl refl]
  note df = assign_summary [where k = good_kernel and pdata = gslcd_fb_default_pdata
      and drvdata = kzalloc_drvdata and w = w0, OF ok refl refl refl refl refl refl]
  have fxv: "fb_virt (assign_drvdata good_kernel fixed_pdata kzalloc_drvdata w0) = 0xE0000000"
    and fxrc: "assign_rc good_kernel fixed_pdata kzalloc_drvdata w0 = 0"
    unfolding fx(5) fx(3)
    by (simp_all add: good_kernel_simps pdata_simps)
  have dfv: "fb_virt (assign_drvdata good_kernel gslcd_fb_default_pdata kzalloc_drvdata w0)
               = 0xC1000000"
    "drv_fb_phys (assign_drvdata good_kernel gslcd_fb_default_pdata kzalloc_drvdata w0)
               = 0x01000000"
    and dfrc: "assign_rc good_kernel gslcd_fb_default_pdata kzalloc_drvdata w0 = 0"
    unfolding df(5) df(3) df(4)
    by (simp_all add: good_kernel_simps pdata_simps)
  show ?thesis
    using ownership_pairing [where drvdata = kzalloc_drvdata and k = good_kernel
        and pdata = fixed_pdata and w = w0 and wa = w0 and wb = w0 and h = kzalloc_drvdata,
        OF fresh ok refl refl refl]
      ownership_pairing [where drvdata = kzalloc_drvdata and k = good_kernel
        and pdata = gslcd_fb_default_pdata and w = w0 and wa = w0 and wb = w0
        and h = kzalloc_drvdata, OF fresh ok refl refl refl]
    by (simp add: fresh ok fxv fxrc dfv dfrc pdata_simps page_align_4096)
qed

subsection \<open>Failure to obtain the frame buffer\<close>

text \<open>
  Claim C7, as the code has it. When the configuration gives a nonzero fixed address
  and mapping it fails (\<open>ioremap\<close> returns a null pointer), assign fails with
  \<open>-ENOMEM\<close>; this is the error it also returns when the coherent allocation fails.
  Of the calls that the trace records, it has made the two that map the registers
  and the frame buffer; the message that \<open>dev_err\<close> logs before the return is, like
  every log call, not recorded.
\<close>

theorem map_failure_is_enomem:
  assumes "\<not> IS_ERR (devm_ioremap_resource k)" and "fb_phys pdata \<noteq> 0"
    and "ioremap k (fb_phys pdata) (xvirt pdata * yvirt pdata * BYTES_PER_PIXEL) = 0"
  shows "assign_rc k pdata drvdata w = - ENOMEM
       \<and> calls w (assign_world k pdata drvdata w) =
           [DevmIoremapResource (devm_ioremap_resource k),
            Ioremap (fb_phys pdata) (xvirt pdata * yvirt pdata * BYTES_PER_PIXEL) 0]
       \<and> (\<not> IS_ERR (devm_ioremap_resource kb) \<and> fb_phys pb = 0
            \<and> fst (dma_alloc_coherent kb
                  (PAGE_ALIGN kb (xvirt pb * yvirt pb * BYTES_PER_PIXEL))) = 0
          \<longrightarrow> assign_rc kb pb db wb = - ENOMEM)"
proof -
  note sm = assign_summary [where k = k and pdata = pdata and drvdata = drvdata and w = w,
      OF assms(1) refl refl refl refl refl refl]
  have v: "fb_virt (assign_drvdata k pdata drvdata w) = 0"
    unfolding sm(3) using assms(2,3) by simp
  have one: "assign_rc k pdata drvdata w = - ENOMEM"
    unfolding sm(5) using v by simp
  have two: "calls w (assign_world k pdata drvdata w) =
           [DevmIoremapResource (devm_ioremap_resource k),
            Ioremap (fb_phys pdata) (xvirt pdata * yvirt pdata * BYTES_PER_PIXEL) 0]"
    unfolding sm(6) using v assms(2) by (simp add: sm(1))
  have three: "assign_rc kb pb db wb = - ENOMEM"
    if ok: "\<not> IS_ERR (devm_ioremap_resource kb)" and dyn: "fb_phys pb = 0"
      and null: "fst (dma_alloc_coherent kb
                  (PAGE_ALIGN kb (xvirt pb * yvirt pb * BYTES_PER_PIXEL))) = 0"
  proof -
    note sb = assign_summary [where k = kb and pdata = pb and drvdata = db and w = wb,
        OF ok refl refl refl refl refl refl]
    have "fb_virt (assign_drvdata kb pb db wb) = 0"
      unfolding sb(3) using dyn null by simp
    then show ?thesis
      unfolding sb(5) by simp
  qed
  show ?thesis
    using one two three by blast
qed

theorem map_failure_is_enomem_witness:
  "\<not> IS_ERR (devm_ioremap_resource map_fails_kernel) \<and> fb_phys fixed_pdata \<noteq> 0
   \<and> ioremap map_fails_kernel (fb_phys fixed_pdata)
        (xvirt fixed_pdata * yvirt fixed_pdata * BYTES_PER_PIXEL) = 0
   \<and> assign_rc map_fails_kernel fixed_pdata kzalloc_drvdata w0 = - 12
   \<and> calls w0 (assign_world map_fails_kernel fixed_pdata kzalloc_drvdata w0)
        = [DevmIoremapResource 0xF0000000, Ioremap 0x10000000 1152000 0]
   \<and> \<not> IS_ERR (devm_ioremap_resource alloc_fails_kernel)
   \<and> fb_phys gslcd_fb_default_pdata = 0
   \<and> fst (dma_alloc_coherent alloc_fails_kernel
        (PAGE_ALIGN alloc_fails_kernel
          (xvirt gslcd_fb_default_pdata * yvirt gslcd_fb_default_pdata * BYTES_PER_PIXEL))) = 0
   \<and> assign_rc alloc_fails_kernel gslcd_fb_default_pdata kzalloc_drvdata w0 = - 12"
  using map_failure_is_enomem [where k = map_fails_kernel and pdata = fixed_pdata
      and drvdata = kzalloc_drvdata and w = w0 and kb = alloc_fails_kernel
      and pb = gslcd_fb_default_pdata and db = kzalloc_drvdata and wb = w0]
  by (simp add: kernel_variants not_is_err pdata_simps ENOMEM_def)

text \<open>
  Claim C7 as stated fails: with a fixed address whose mapping fails the result is
  \<open>-ENOMEM\<close>, the very value that a failed coherent allocation gives.
\<close>

theorem map_failure_counterexample:
  "assign_rc map_fails_kernel fixed_pdata kzalloc_drvdata w0 = - ENOMEM
   \<and> assign_rc alloc_fails_kernel gslcd_fb_default_pdata kzalloc_drvdata w0 = - ENOMEM
   \<and> assign_rc map_fails_kernel fixed_pdata kzalloc_drvdata w0
       = assign_rc alloc_fails_kernel gslcd_fb_default_pdata kzalloc_drvdata w0"
proof -
  note a = assign_summary [where k = map_fails_kernel and pdata = fixed_pdata
      and drvdata = kzalloc_drvdata and w = w0, OF _ refl refl refl refl refl refl]
  note b = assign_summary [where k = alloc_fails_kernel and pdata = gslcd_fb_default_pdata
      and drvdata = kzalloc_drvdata and w = w0, OF _ refl refl refl refl refl refl]
  have "fb_virt (assign_drvdata map_fails_kernel fixed_pdata kzalloc_drvdata w0) = 0"
    by (subst a(3)) (simp_all add: kernel_variants not_is_err pdata_simps)
  then have one: "assign_rc map_fails_kernel fixed_pdata kzalloc_drvdata w0 = - ENOMEM"
    by (subst a(5)) (simp_all add: kernel_variants not_is_err)
  have "fb_virt (assign_drvdata alloc_fails_kernel gslcd_fb_default_pdata kzalloc_drvdata w0)
          = 0"
    by (subst b(3)) (simp_all add: kernel_variants not_is_err pdata_simps)
  then have two:
    "assign_rc alloc_fails_kernel gslcd_fb_default_pdata kzalloc_drvdata w0 = - ENOMEM"
    by (subst b(5)) (simp_all add: kernel_variants not_is_err)
  show ?thesis
    using one two by simp
qed

subsection \<open>The default configuration\<close>

text \<open>
  Claim C9. With the default configuration (800 by 480, virtual 800 by 480, no fixed
  address), registers that map and a coherent allocation that succeeds, the frame
  buffer size is 800 * 480 * 3 = 1,152,000 bytes, which is the length of the region
  that the surface descriptor records; the first four calls of assign are the
  register mapping, the allocation, the clearing of 1,152,000 bytes from the start of
  the buffer with the value 0, and only then the write of the buffer's physical
  address to the frame pointer register; and each of the 1,152,000 bytes is zero.
\<close>

theorem default_region_zeroed:
  assumes "\<not> IS_ERR (devm_ioremap_resource k)"
    and "dma_alloc_coherent k (PAGE_ALIGN k 1152000) = (v, handle)" and "v \<noteq> 0"
    and "d = assign_drvdata k gslcd_fb_default_pdata drvdata w"
    and "w' = assign_world k gslcd_fb_default_pdata drvdata w"
  shows "unat (xvirt gslcd_fb_default_pdata * yvirt gslcd_fb_default_pdata * BYTES_PER_PIXEL)
           = 800 * 480 * 3
       \<and> smem_len (fb_fix (info d)) = 1152000
       \<and> fb_virt d = v \<and> drv_fb_phys d = handle
       \<and> take 4 (calls w w') =
           [DevmIoremapResource (regs d), DmaAllocCoherent (PAGE_ALIGN k 1152000) v handle,
            MemsetIo v 0 1152000, Iowrite32 handle (regs d + push_bit 2 REG_OFF_FB_PTR)]
       \<and> (\<forall>i < 1152000. mem w' (v + of_nat i) = 0)"
proof -
  note sm = assign_summary [where k = k and pdata = gslcd_fb_default_pdata
      and drvdata = drvdata and w = w, OF assms(1) refl assms(4,5) refl refl refl]
  have v: "fb_virt d = v" and h: "drv_fb_phys d = handle"
    unfolding sm(3) sm(4) by (simp_all add: pdata_simps assms(2))
  have nz: "fb_virt d \<noteq> 0"
    using v assms(3) by simp
  have len: "smem_len (fb_fix (info d)) = 1152000"
    using sm(7) nz by (simp add: pdata_simps)
  have tr: "take 4 (calls w w') =
           [DevmIoremapResource (regs d), DmaAllocCoherent (PAGE_ALIGN k 1152000) v handle,
            MemsetIo v 0 1152000, Iowrite32 handle (regs d + push_bit 2 REG_OFF_FB_PTR)]"
    unfolding sm(6) using nz by (simp add: pdata_simps v h fb_ptr_addr)
  have mm: "mem w' = (\<lambda>a. if a - v < 1152000 then 0 else mem w a)"
    using sm(8) nz by (simp add: pdata_simps v)
  have zero: "mem w' (v + of_nat i) = 0" if "i < 1152000" for i
  proof -
    have "unat (of_nat i :: u32) = i"
      using that by (simp add: unat_of_nat)
    then have "(of_nat i :: u32) < 1152000"
      using that by (simp add: word_less_nat_alt)
    then show ?thesis
      by (simp add: mm)
  qed
  show ?thesis
    using len v h tr zero by (simp add: pdata_simps)
qed

theorem default_region_zeroed_witness:
  "\<not> IS_ERR (devm_ioremap_resource good_kernel)
   \<and> dma_alloc_coherent good_kernel (PAGE_ALIGN good_kernel 1152000) = (0xC1000000, 0x01000000)
   \<and> (0xC1000000 :: u32) \<noteq> 0
   \<and> smem_len (fb_fix (info (assign_drvdata good_kernel gslcd_fb_default_pdata
        kzalloc_drvdata w0))) = 1152000
   \<and> take 4 (calls w0 (assign_world good_kernel gslcd_fb_default_pdata kzalloc_drvdata w0))
       = [DevmIoremapResource 0xF0000000, DmaAllocCoherent 1155072 0xC1000000 0x01000000,
          MemsetIo 0xC1000000 0 1152000, Iowrite32 0x01000000 0xF0000004]
   \<and> (1151999 :: nat) < 1152000
   \<and> mem (assign_world good_kernel gslcd_fb_default_pdata kzalloc_drvdata w0)
        (0xC1000000 + of_nat 1151999) = 0
   \<and> mem w0 (0xC1000000 + of_nat 1151999) = 0xFF"
proof -
  have ok: "\<not> IS_ERR (devm_ioremap_resource good_kernel)"
    by (simp add: good_kernel_simps not_is_err)
  note sm = assign_summary [where k = good_kernel and pdata = gslcd_fb_default_pdata
      and drvdata = kzalloc_drvdata and w = w0, OF ok refl refl refl refl refl refl]
  note th = default_region_zeroed [where k = good_kernel and drvdata = kzalloc_drvdata
      and w = w0 and v = "0xC1000000" and handle = "0x01000000", OF ok _ _ refl refl]
  have r: "regs (assign_drvdata good_kernel gslcd_fb_default_pdata kzalloc_drvdata w0)
             = 0xF0000000"
    unfolding sm(1) by (simp add: good_kernel_simps)
  have "\<forall>i < 1152000.
          mem (assign_world good_kernel gslcd_fb_default_pdata kzalloc_drvdata w0)
            (0xC1000000 + of_nat i) = 0"
    using th by (simp add: good_kernel_simps)
  then have "mem (assign_world good_kernel gslcd_fb_default_pdata kzalloc_drvdata w0)
          (0xC1000000 + of_nat 1151999) = 0"
    by (rule allE [where x = 1151999]) simp
  then show ?thesis
    using th ok by (simp add: good_kernel_simps page_align_4096 r w0_simps REG_OFF_FB_PTR_def)
qed

subsection \<open>Failure of the registration\<close>

text \<open>
  Claim C2. Take driver data as \<open>devm_kzalloc\<close> returns it, registers that map, frame
  buffer memory and a colour map that are granted, and a registration that fails
  with \<open>rc\<close>. Then assign returns \<open>rc\<close>; after the seven calls of the setup it
  deallocates the colour map, then gives the frame buffer back by the call that its
  ownership tag selects (with the arguments of the acquisition), then writes 0 to the
  enable register, which leaves the display disabled. The resources it releases are
  those it acquired, in reverse order, and none is outstanding afterwards. A second
  assign with the same configuration, on the driver data and the world that the
  failed one left, returns 0 when its calls succeed, and holds exactly its own three
  resources.
\<close>

theorem registration_failure_unwinds:
  assumes "fb_alloced drvdata = 0" and "\<not> IS_ERR (devm_ioremap_resource k)"
    and "fb_memory_ok k pdata" and "fb_alloc_cmap k PALETTE_ENTRIES_NO 0 = 0"
    and "register_framebuffer k \<noteq> 0"
    and "fbsize = xvirt pdata * yvirt pdata * BYTES_PER_PIXEL"
    and "d = assign_drvdata k pdata drvdata w" and "w' = assign_world k pdata drvdata w"
  shows "assign_rc k pdata drvdata w = register_framebuffer k
       \<and> ownership_tag d = (if fb_phys pdata = 0 then Allocated else ExternallyProvided)
       \<and> calls w w' =
           [DevmIoremapResource (regs d),
            (if fb_phys pdata = 0
             then DmaAllocCoherent (PAGE_ALIGN k fbsize) (fb_virt d) (drv_fb_phys d)
             else Ioremap (fb_phys pdata) fbsize (fb_virt d)),
            MemsetIo (fb_virt d) 0 fbsize,
            Iowrite32 (drv_fb_phys d) (regs d + push_bit 2 REG_OFF_FB_PTR),
            Iowrite32 1 (regs d + push_bit 2 REG_OFF_EN),
            FbAllocCmap PALETTE_ENTRIES_NO 0 0,
            RegisterFramebuffer (register_framebuffer k),
            FbDeallocCmap,
            (if ownership_tag d = Allocated
             then DmaFreeCoherent (PAGE_ALIGN k fbsize) (fb_virt d) (drv_fb_phys d)
             else Iounmap (fb_virt d)),
            Iowrite32 0 (regs d + push_bit 2 REG_OFF_EN)]
       \<and> acquired (calls w w') = [fb_resource k pdata d, Colormap]
       \<and> released (calls w w') = rev (acquired (calls w w'))
       \<and> outstanding rs (calls w w') = rs
       \<and> display_state_of d w' = Disabled
       \<and> (all_calls_succeed kb pdata \<longrightarrow>
            assign_rc kb pdata d w' = 0
          \<and> outstanding [] (calls w' (assign_world kb pdata d w'))
              = [Registration, Colormap, fb_resource kb pdata (assign_drvdata kb pdata d w')]
          \<and> ownership_tag (assign_drvdata kb pdata d w') = ownership_tag d)"
proof -
  note sm = assign_summary [OF assms(2,6,7,8) refl refl refl]
  have nz: "fb_virt d \<noteq> 0"
    unfolding assms(7) using assms(2,3) by (rule fb_memory_ok_nonnull)
  have alloced: "fb_alloced d = (if fb_phys pdata = 0 then 1 else 0)"
    unfolding sm(2) using assms(1) by simp
  have tag: "ownership_tag d = (if fb_phys pdata = 0 then Allocated else ExternallyProvided)"
    by (simp add: ownership_tag_def alloced)
  have rc: "assign_rc k pdata drvdata w = register_framebuffer k"
    unfolding sm(5) using nz assms(4,5) by simp
  have tr: "calls w w' =
           [DevmIoremapResource (regs d),
            (if fb_phys pdata = 0
             then DmaAllocCoherent (PAGE_ALIGN k fbsize) (fb_virt d) (drv_fb_phys d)
             else Ioremap (fb_phys pdata) fbsize (fb_virt d)),
            MemsetIo (fb_virt d) 0 fbsize,
            Iowrite32 (drv_fb_phys d) (regs d + 4),
            Iowrite32 1 (regs d),
            FbAllocCmap PALETTE_ENTRIES_NO 0 0,
            RegisterFramebuffer (register_framebuffer k),
            FbDeallocCmap,
            (if ownership_tag d = Allocated
             then DmaFreeCoherent (PAGE_ALIGN k fbsize) (fb_virt d) (drv_fb_phys d)
             else Iounmap (fb_virt d)),
            Iowrite32 0 (regs d)]"
    unfolding sm(6) using nz assms(4,5) by (simp add: tag alloced)
  have acq: "acquired (calls w w') = [fb_resource k pdata d, Colormap]"
    and rel: "released (calls w w') = [Colormap, fb_resource k pdata d]"
    and out: "outstanding rs (calls w w') = rs"
    unfolding tr using nz assms(5,6) by (simp_all add: account_simps tag)
  have off: "display_state_of d w' = Disabled"
    using sm(9) nz assms(5)
    by (simp add: rc display_state_of_def gslcd_fb_in32_def ioread32_def en_addr)
  have again: "assign_rc kb pdata d w' = 0
          \<and> outstanding [] (calls w' (assign_world kb pdata d w'))
              = [Registration, Colormap, fb_resource kb pdata (assign_drvdata kb pdata d w')]
          \<and> ownership_tag (assign_drvdata kb pdata d w') = ownership_tag d"
    if good: "all_calls_succeed kb pdata"
  proof -
    from good have ok: "\<not> IS_ERR (devm_ioremap_resource kb)" and fb: "fb_memory_ok kb pdata"
      and cm: "fb_alloc_cmap kb PALETTE_ENTRIES_NO 0 = 0" and rg: "register_framebuffer kb = 0"
      by (simp_all add: all_calls_succeed_def)
    note sb = assign_summary [where k = kb and pdata = pdata and drvdata = d and w = w',
        OF ok assms(6) refl refl refl refl refl]
    have nz2: "fb_virt (assign_drvdata kb pdata d w') \<noteq> 0"
      using ok fb by (rule fb_memory_ok_nonnull)
    have one: "assign_rc kb pdata d w' = 0"
      unfolding sb(5) using nz2 cm rg by simp
    have two: "outstanding [] (calls w' (assign_world kb pdata d w'))
              = [Registration, Colormap, fb_resource kb pdata (assign_drvdata kb pdata d w')]"
      unfolding sb(6) using nz2 cm rg assms(6) by (simp add: account_simps)
    have three: "ownership_tag (assign_drvdata kb pdata d w') = ownership_tag d"
      by (simp add: ownership_tag_def sb(2) alloced)
    show ?thesis
      using one two three by blast
  qed
  show ?thesis
    using rc tag tr acq rel out off again by (simp add: en_addr fb_ptr_addr)
qed

theorem registration_failure_unwinds_witness:
  "fb_alloced kzalloc_drvdata = 0 \<and> \<not> IS_ERR (devm_ioremap_resource register_fails_kernel)
   \<and> fb_memory_ok register_fails_kernel gslcd_fb_default_pdata
   \<and> fb_alloc_cmap register_fails_kernel PALETTE_ENTRIES_NO 0 = 0
   \<and> register_framebuffer register_fails_kernel \<noteq> 0
   \<and> all_calls_succeed good_kernel gslcd_fb_default_pdata
   \<and> assign_rc register_fails_kernel gslcd_fb_default_pdata kzalloc_drvdata w0 = - 22
   \<and> calls w0 (assign_world register_fails_kernel gslcd_fb_default_pdata kzalloc_drvdata w0)
       = [DevmIoremapResource 0xF0000000, DmaAllocCoherent 1155072 0xC1000000 0x01000000,
          MemsetIo 0xC1000000 0 1152000, Iowrite32 0x01000000 0xF0000004,
          Iowrite32 1 0xF0000000, FbAllocCmap 16 0 0, RegisterFramebuffer (- 22),
          FbDeallocCmap, DmaFreeCoherent 1155072 0xC1000000 0x01000000,
          Iowrite32 0 0xF0000000]
   \<and> outstanding []
        (calls w0 (assign_world register_fails_kernel gslcd_fb_default_pdata kzalloc_drvdata w0))
       = []
   \<and> assign_rc good_kernel gslcd_fb_default_pdata
        (assign_drvdata register_fails_kernel gslcd_fb_default_pdata kzalloc_drvdata w0)
        (assign_world register_fails_kernel gslcd_fb_default_pdata kzalloc_drvdata w0) = 0"
proof -
  have ok: "\<not> IS_ERR (devm_ioremap_resource register_fails_kernel)"
    by (simp add: kernel_variants not_is_err)
  have fresh: "fb_alloced kzalloc_drvdata = 0"
    by (simp add: kzalloc_drvdata_def)
  have pa: "PAGE_ALIGN register_fails_kernel 1152000 = 1155072"
    by (simp add: PAGE_ALIGN_def kernel_variants)
  have fb: "fb_memory_ok register_fails_kernel gslcd_fb_default_pdata"
    by (simp add: fb_memory_ok_def pdata_simps kernel_variants)
  have cm: "fb_alloc_cmap register_fails_kernel PALETTE_ENTRIES_NO 0 = 0"
    and rg: "register_framebuffer register_fails_kernel \<noteq> 0"
    by (simp_all add: kernel_variants)
  have good: "all_calls_succeed good_kernel gslcd_fb_default_pdata"
    by (simp add: all_calls_succeed_def fb_memory_ok_def pdata_simps good_kernel_simps
        not_is_err)
  note sm = assign_summary [where k = register_fails_kernel
      and pdata = gslcd_fb_default_pdata and drvdata = kzalloc_drvdata and w = w0,
      OF ok refl refl refl refl refl refl]
  have flds:
    "regs (assign_drvdata register_fails_kernel gslcd_fb_default_pdata kzalloc_drvdata w0)
       = 0xF0000000"
    "fb_virt (assign_drvdata register_fails_kernel gslcd_fb_default_pdata kzalloc_drvdata w0)
       = 0xC1000000"
    "drv_fb_phys (assign_drvdata register_fails_kernel gslcd_fb_default_pdata kzalloc_drvdata w0)
       = 0x01000000"
    unfolding sm(1) sm(3) sm(4) by (simp_all add: kernel_variants pdata_simps)
  show ?thesis
    using registration_failure_unwinds [where drvdata = kzalloc_drvdata
        and k = register_fails_kernel and pdata = gslcd_fb_default_pdata and w = w0
        and kb = good_kernel and rs = "[]", OF fresh ok fb cm rg refl refl refl]
    by (simp add: fresh fb cm good flds pa pdata_simps kernel_variants not_is_err
        PALETTE_ENTRIES_NO_def REG_OFF_EN_def REG_OFF_FB_PTR_def account_simps)
qed

end
